theory Spec2Isabelle
  imports Complex_Main "HOL-Library.Monad_Syntax"
begin

section \<open>The orrery of main.cpp: data model\<close>

text \<open>
  The program animates three spheres (sun, earth, moon) and a static background shell.
  Its numbers are C++ \<open>float\<close> and \<open>double\<close>; they are modelled as \<open>real\<close>, so
  rounding, overflow and NaN are outside the model and every equation below is the
  program's formula read over the reals. The GLM vector types are datatypes with the
  component-wise arithmetic the program uses.
\<close>

datatype vec2 = Vec2 real real

datatype vec3 = Vec3 real real real

datatype vec4 = Vec4 real real real real

text \<open>A \<open>mat4\<close> is four columns, as GLM stores it.\<close>

datatype mat4 = Mat4 vec4 vec4 vec4 vec4

fun vec3_add :: "vec3 \<Rightarrow> vec3 \<Rightarrow> vec3" where
  "vec3_add (Vec3 a b c) (Vec3 d e f) = Vec3 (a + d) (b + e) (c + f)"

fun vec3_sub :: "vec3 \<Rightarrow> vec3 \<Rightarrow> vec3" where
  "vec3_sub (Vec3 a b c) (Vec3 d e f) = Vec3 (a - d) (b - e) (c - f)"

fun vec3_scale :: "real \<Rightarrow> vec3 \<Rightarrow> vec3" where
  "vec3_scale k (Vec3 a b c) = Vec3 (k * a) (k * b) (k * c)"

fun vec4_add :: "vec4 \<Rightarrow> vec4 \<Rightarrow> vec4" where
  "vec4_add (Vec4 a b c d) (Vec4 e f g h) = Vec4 (a + e) (b + f) (c + g) (d + h)"

fun vec4_scale :: "vec4 \<Rightarrow> real \<Rightarrow> vec4" where
  "vec4_scale (Vec4 a b c d) k = Vec4 (a * k) (b * k) (c * k) (d * k)"

text \<open>\<open>mat4 * vec4\<close>: the linear combination of the columns.\<close>

fun mat4_mul_vec4 :: "mat4 \<Rightarrow> vec4 \<Rightarrow> vec4" where
  "mat4_mul_vec4 (Mat4 c0 c1 c2 c3) (Vec4 x y z w) =
     vec4_add (vec4_add (vec4_add (vec4_scale c0 x) (vec4_scale c1 y)) (vec4_scale c2 z))
       (vec4_scale c3 w)"

text \<open>\<open>vec3(v)\<close> for a \<open>vec4\<close> drops the last component.\<close>

fun vec3_of_vec4 :: "vec4 \<Rightarrow> vec3" where
  "vec3_of_vec4 (Vec4 x y z w) = Vec3 x y z"

text \<open>\<open>mat4(1.0f)\<close>: the identity.\<close>

definition mat4_identity :: mat4 where
  "mat4_identity = Mat4 (Vec4 1 0 0 0) (Vec4 0 1 0 0) (Vec4 0 0 1 0) (Vec4 0 0 0 1)"

text \<open>
  The three GLM functions the program calls without the repository defining them
  (\<open>rotate\<close>, \<open>translate\<close>, \<open>normalize\<close>) are parameters of the model: every function
  that reaches one of them takes the record \<open>G\<close>, and the theorems hold for every \<open>G\<close>.
\<close>

record glm =
  glm_rotate :: "mat4 \<Rightarrow> real \<Rightarrow> vec3 \<Rightarrow> mat4"
  glm_translate :: "mat4 \<Rightarrow> vec3 \<Rightarrow> mat4"
  glm_normalize :: "vec3 \<Rightarrow> vec3"

text \<open>
  An instance to run the model on concrete inputs: rotation by Rodrigues' formula about
  the normalised axis, translation of the last column, division by the Euclidean norm.
  (For the zero vector HOL's \<open>1 / 0 = 0\<close> gives the zero vector where GLM gives NaN;
  no statement below depends on the instance.)
\<close>

fun vec3_dot :: "vec3 \<Rightarrow> vec3 \<Rightarrow> real" where
  "vec3_dot (Vec3 a b c) (Vec3 d e f) = a * d + b * e + c * f"

definition ref_normalize :: "vec3 \<Rightarrow> vec3" where
  "ref_normalize v = vec3_scale (1 / sqrt (vec3_dot v v)) v"

fun ref_translate :: "mat4 \<Rightarrow> vec3 \<Rightarrow> mat4" where
  "ref_translate (Mat4 c0 c1 c2 c3) (Vec3 x y z) =
     Mat4 c0 c1 c2
       (vec4_add (vec4_add (vec4_add (vec4_scale c0 x) (vec4_scale c1 y)) (vec4_scale c2 z)) c3)"

fun ref_rotate_cols :: "mat4 \<Rightarrow> real \<Rightarrow> real \<Rightarrow> vec3 \<Rightarrow> mat4" where
  "ref_rotate_cols (Mat4 c0 c1 c2 c3) c s (Vec3 x y z) =
     (let t0 = (1 - c) * x; t1 = (1 - c) * y; t2 = (1 - c) * z in
      Mat4
        (vec4_add (vec4_add (vec4_scale c0 (c + t0 * x)) (vec4_scale c1 (t0 * y + s * z)))
           (vec4_scale c2 (t0 * z - s * y)))
        (vec4_add (vec4_add (vec4_scale c0 (t1 * x - s * z)) (vec4_scale c1 (c + t1 * y)))
           (vec4_scale c2 (t1 * z + s * x)))
        (vec4_add (vec4_add (vec4_scale c0 (t2 * x + s * y)) (vec4_scale c1 (t2 * y - s * x)))
           (vec4_scale c2 (c + t2 * z)))
        c3)"

definition ref_rotate :: "mat4 \<Rightarrow> real \<Rightarrow> vec3 \<Rightarrow> mat4" where
  "ref_rotate m angle v = ref_rotate_cols m (cos angle) (sin angle) (ref_normalize v)"

definition glm_ref :: glm where
  "glm_ref = \<lparr>glm_rotate = ref_rotate, glm_translate = ref_translate,
     glm_normalize = ref_normalize\<rparr>"

subsection \<open>Global constants and variables\<close>

definition PI :: real where
  "PI = 3.14159265359"

definition sunRadius :: real where "sunRadius = 696340"
definition earthRadius :: real where "earthRadius = 6371 * 30"
definition moonRadius :: real where "moonRadius = 1737.4 * 60"
definition backgroundRadius :: real where "backgroundRadius = sunRadius * 100"

definition earthToSun :: real where "earthToSun = 147720000 * 0.01"
definition moonToEarth :: real where "moonToEarth = 384400 * 1.10"

text \<open>\<open>radians(d)\<close> is GLM's \<open>d * 0.01745329251994329576923690768489\<close>.\<close>

definition radians :: "real \<Rightarrow> real" where
  "radians d = d * 0.01745329251994329576923690768489"

definition earthOrbitalInclination :: real where "earthOrbitalInclination = radians 23.4"
definition moonOrbitalInclination :: real where "moonOrbitalInclination = radians 5.15"
definition earthAxialTilt :: real where "earthAxialTilt = radians 23.4"
definition moonAxialTilt :: real where "moonAxialTilt = radians 1.5"

definition sunRotationSpeed :: real where "sunRotationSpeed = 1.997"
definition earthRotationSpeed :: real where "earthRotationSpeed = 0.47 * 60"
definition moonRotationSpeed :: real where "moonRotationSpeed = 0.004639 * 600"

definition earthOrbitSpeed :: real where "earthOrbitSpeed = 30 / 10"
definition moonOrbitSpeed :: real where "moonOrbitSpeed = 1.022 * 10"

definition xAxisOfRotation :: vec3 where "xAxisOfRotation = Vec3 1 0 0"
definition yAxisOfRotation :: vec3 where "yAxisOfRotation = Vec3 0 1 0"
definition xAxisMatrix :: vec4 where "xAxisMatrix = Vec4 1 0 0 0"
definition yAxisMatrix :: vec4 where "yAxisMatrix = Vec4 0 1 0 0"

definition modelScale :: real where "modelScale = 0.5 / sunRadius"
definition uvInc :: real where "uvInc = 0.1"

subsection \<open>Planets and the program state\<close>

record CPU_Geometry =
  verts :: "vec3 list"
  texCoords :: "vec2 list"
  normals :: "vec3 list"

text \<open>The GPU buffers hold what was last uploaded to them.\<close>

record GPU_Geometry =
  gpu_verts :: "vec3 list"
  gpu_texCoords :: "vec2 list"
  gpu_normals :: "vec3 list"

type_synonym addr = nat

text \<open>
  The members of \<open>class Planet\<close>. \<open>parent\<close> is a pointer: \<open>None\<close> is \<open>nullptr\<close>,
  \<open>Some a\<close> the address of another planet in the store.
\<close>

record Planet =
  orbitalInclination :: real
  axialTilt :: real
  distanceFromParent :: real
  orbitalSpeed :: real
  rotationSpeed :: real
  radius :: real
  orbitalAngle :: real
  axialAngle :: real
  parent :: "addr option"
  position :: vec3
  rotationAxis :: vec3
  cpuGeom :: CPU_Geometry
  gpuGeom :: GPU_Geometry
  texture :: string
  modelMatrix :: mat4
  translationMatrix :: mat4
  axialRotationMatrix :: mat4
  negAxialRotationMatrix :: mat4

text \<open>
  The mutable globals of the program and the store of its planets. (\<open>axialInc\<close> is
  declared and never used, and is left out.)
\<close>

record world =
  animationSpeed :: real
  isAnimating :: bool
  restartAnimation :: bool
  lastUpdateTime :: real
  currUpdateTime :: real
  heap :: "addr \<Rightarrow> Planet option"

section \<open>The methods of Planet\<close>

definition getElapsedTime :: "world \<Rightarrow> real" where
  "getElapsedTime w = currUpdateTime w - lastUpdateTime w"

definition getPosition :: "Planet \<Rightarrow> vec3" where
  "getPosition p = position p"

definition updateGPUGeom :: "Planet \<Rightarrow> Planet" where
  "updateGPUGeom p =
     p\<lparr>gpuGeom := \<lparr>gpu_verts = verts (cpuGeom p), gpu_texCoords = texCoords (cpuGeom p),
       gpu_normals = normals (cpuGeom p)\<rparr>\<rparr>"

definition resetOrientation :: "glm \<Rightarrow> Planet \<Rightarrow> Planet" where
  "resetOrientation G p =
     (let p1 = p\<lparr>orbitalAngle := PI / 2\<rparr>;
          p2 = p1\<lparr>axialAngle := PI / 2\<rparr>;
          initAxialAngle = orbitalInclination p2 + axialAngle p2 + axialTilt p2;
          p3 = p2\<lparr>axialRotationMatrix :=
                 glm_rotate G (modelMatrix p2) initAxialAngle xAxisOfRotation\<rparr>;
          p4 = p3\<lparr>negAxialRotationMatrix := modelMatrix p3\<rparr>
      in p4\<lparr>rotationAxis := vec3_of_vec4 (mat4_mul_vec4 (axialRotationMatrix p4) yAxisMatrix)\<rparr>)"

definition updateAxialRotation :: "glm \<Rightarrow> world \<Rightarrow> Planet \<Rightarrow> Planet" where
  "updateAxialRotation G w p =
     (let p1 = p\<lparr>axialAngle := axialAngle p + rotationSpeed p * animationSpeed w * getElapsedTime w\<rparr>;
          p2 = p1\<lparr>axialRotationMatrix :=
                 glm_rotate G (modelMatrix p1) (axialAngle p1) (rotationAxis p1)\<rparr>
      in p2\<lparr>negAxialRotationMatrix :=
              glm_rotate G (modelMatrix p2) (- axialAngle p2) (rotationAxis p2)\<rparr>)"

definition updateTranslationMatrix :: "glm \<Rightarrow> Planet \<Rightarrow> Planet" where
  "updateTranslationMatrix G p =
     (if parent p = None then p\<lparr>translationMatrix := modelMatrix p\<rparr>
      else p\<lparr>translationMatrix := glm_translate G (modelMatrix p) (position p)\<rparr>)"

text \<open>
  \<open>updateLocation\<close> reads the parent's position through the pointer; a pointer to no
  planet of the store is the one failure of the model (\<open>None\<close>).
\<close>

definition updateLocation :: "world \<Rightarrow> Planet \<Rightarrow> Planet option" where
  "updateLocation w p =
     (case parent p of
        None \<Rightarrow> Some (p\<lparr>position := Vec3 0 0 0\<rparr>)
      | Some a \<Rightarrow>
          (case heap w a of
             None \<Rightarrow> None
           | Some q \<Rightarrow>
               (let relativePositionFromParent =
                      vec3_scale (distanceFromParent p)
                        (Vec3 (sin (orbitalAngle p))
                           (sin (orbitalAngle p) * sin (orbitalInclination p))
                           (cos (orbitalAngle p)))
                in Some (p\<lparr>position := vec3_add (getPosition q) relativePositionFromParent\<rparr>))))"

definition getNormal :: "glm \<Rightarrow> Planet \<Rightarrow> vec3 \<Rightarrow> vec3" where
  "getNormal G p vertex = glm_normalize G (vec3_sub vertex (position p))"

definition updateNormals :: "glm \<Rightarrow> Planet \<Rightarrow> Planet" where
  "updateNormals G p =
     updateGPUGeom (p\<lparr>cpuGeom := (cpuGeom p)\<lparr>normals := map (getNormal G p) (verts (cpuGeom p))\<rparr>\<rparr>)"

definition updateOrbitalRotation :: "glm \<Rightarrow> world \<Rightarrow> Planet \<Rightarrow> Planet option" where
  "updateOrbitalRotation G w p =
     (let p1 = p\<lparr>orbitalAngle := orbitalAngle p + orbitalSpeed p * animationSpeed w * getElapsedTime w\<rparr>
      in case updateLocation w p1 of
           None \<Rightarrow> None
         | Some p2 \<Rightarrow> Some (updateTranslationMatrix G (updateNormals G p2)))"

text \<open>
  \<open>animate\<close> on the planet at address \<open>a\<close>; \<open>now\<close> is what \<open>glfwGetTime\<close> returns to
  this call. The body is read from the store, run through the two updates and written
  back. \<open>updateLocation\<close> reads the parent from the store of the beginning of the call:
  nothing before it in the call writes a position, so this is what the pointer reads
  even when it points to the body itself.
\<close>

definition animate :: "glm \<Rightarrow> real \<Rightarrow> addr \<Rightarrow> world \<Rightarrow> world option" where
  "animate G now a w =
     (case heap w a of
        None \<Rightarrow> None
      | Some p \<Rightarrow>
          (let w1 = w\<lparr>currUpdateTime := now\<rparr>
           in case updateOrbitalRotation G w1 (updateAxialRotation G w1 p) of
                None \<Rightarrow> None
              | Some p' \<Rightarrow>
                  Some (w1\<lparr>heap := (heap w1)(a \<mapsto> p'), lastUpdateTime := currUpdateTime w1\<rparr>)))"

subsection \<open>The sphere mesh\<close>

definition getVertexCoord :: "Planet \<Rightarrow> real \<Rightarrow> real \<Rightarrow> vec3" where
  "getVertexCoord p phi theta =
     vec3_scale (radius p) (Vec3 (sin phi * cos theta) (sin phi * sin theta) (cos phi))"

definition getTextureCoord :: "real \<Rightarrow> real \<Rightarrow> vec2" where
  "getTextureCoord phi theta = Vec2 (theta / (2 * PI)) (phi / PI)"

definition drawPoint :: "real \<Rightarrow> real \<Rightarrow> Planet \<Rightarrow> Planet" where
  "drawPoint phi theta p =
     (let p1 = p\<lparr>cpuGeom := (cpuGeom p)\<lparr>verts := verts (cpuGeom p) @ [getVertexCoord p phi theta]\<rparr>\<rparr>
      in p1\<lparr>cpuGeom := (cpuGeom p1)\<lparr>texCoords := texCoords (cpuGeom p1) @ [getTextureCoord phi theta]\<rparr>\<rparr>)"

text \<open>
  The body of the inner loop of \<open>generateSphere\<close>, as it is compiled. The source writes
  six calls of \<open>drawPoint\<close>, but the comment on the line before the first one
  (\<^verbatim>\<open>// triangle #1: |\<close> followed by a backslash and a space) ends in a backslash with
  only white space after it. By the line-splicing rule of C++23, which GCC and Clang
  apply in every language mode, that backslash joins the next line to the comment, and
  the next line is the call \<open>drawPoint(u, v)\<close>. The body that runs is the five calls that
  remain, in their order. (A compiler that does not ignore the space after the
  backslash keeps the sixth call; the model follows the rule of the standard.)
\<close>

definition drawCell :: "real \<Rightarrow> real \<Rightarrow> Planet \<Rightarrow> Planet" where
  "drawCell u v p =
     drawPoint u (v + uvInc)
       (drawPoint (u + uvInc) (v + uvInc)
         (drawPoint (u + uvInc) v
           (drawPoint u (v + uvInc)
             (drawPoint (u + uvInc) v p))))"

text \<open>\<open>for (float v = 0.0f; v <= 2 * PI; v += uvInc)\<close>, from the current \<open>v\<close>.\<close>

function generateSphere_v :: "real \<Rightarrow> real \<Rightarrow> Planet \<Rightarrow> Planet" where
  "generateSphere_v u v p =
     (if v \<le> 2 * PI then generateSphere_v u (v + uvInc) (drawCell u v p) else p)"
  by pat_completeness auto
termination
proof (relation "measure (\<lambda>(u, v, p). nat (\<lfloor>(2 * PI - v) / uvInc\<rfloor> + 1))")
  show "wf (measure (\<lambda>(u, v, p). nat (\<lfloor>(2 * PI - v) / uvInc\<rfloor> + 1)))"
    by simp
next
  fix u v :: real and p :: Planet
  assume le: "v \<le> 2 * PI"
  have eq: "(2 * PI - (v + uvInc)) / uvInc = (2 * PI - v) / uvInc - 1"
    by (simp add: uvInc_def field_simps)
  have "0 \<le> (2 * PI - v) / uvInc"
    using le by (simp add: uvInc_def)
  then have "0 \<le> \<lfloor>(2 * PI - v) / uvInc\<rfloor>"
    by simp
  then show "((u, v + uvInc, drawCell u v p), (u, v, p))
      \<in> measure (\<lambda>(u, v, p). nat (\<lfloor>(2 * PI - v) / uvInc\<rfloor> + 1))"
    by (simp add: eq)
qed

declare generateSphere_v.simps [simp del]

text \<open>\<open>for (float u = 0.0f; u <= PI; u += uvInc)\<close>, from the current \<open>u\<close>.\<close>

function generateSphere_u :: "real \<Rightarrow> Planet \<Rightarrow> Planet" where
  "generateSphere_u u p =
     (if u \<le> PI then generateSphere_u (u + uvInc) (generateSphere_v u 0 p) else p)"
  by pat_completeness auto
termination
proof (relation "measure (\<lambda>(u, p). nat (\<lfloor>(PI - u) / uvInc\<rfloor> + 1))")
  show "wf (measure (\<lambda>(u, p). nat (\<lfloor>(PI - u) / uvInc\<rfloor> + 1)))"
    by simp
next
  fix u :: real and p :: Planet
  assume le: "u \<le> PI"
  have eq: "(PI - (u + uvInc)) / uvInc = (PI - u) / uvInc - 1"
    by (simp add: uvInc_def field_simps)
  have "0 \<le> (PI - u) / uvInc"
    using le by (simp add: uvInc_def)
  then have "0 \<le> \<lfloor>(PI - u) / uvInc\<rfloor>"
    by simp
  then show "((u + uvInc, generateSphere_v u 0 p), (u, p))
      \<in> measure (\<lambda>(u, p). nat (\<lfloor>(PI - u) / uvInc\<rfloor> + 1))"
    by (simp add: eq)
qed

declare generateSphere_u.simps [simp del]

definition generateSphere :: "glm \<Rightarrow> Planet \<Rightarrow> Planet" where
  "generateSphere G p =
     (let p1 = p\<lparr>cpuGeom := (cpuGeom p)\<lparr>verts := []\<rparr>\<rparr>;
          p2 = p1\<lparr>cpuGeom := (cpuGeom p1)\<lparr>texCoords := []\<rparr>\<rparr>
      in updateGPUGeom (updateNormals G (generateSphere_u 0 p2)))"

subsection \<open>Construction\<close>

text \<open>
  The constructor stores its arguments, sets \<open>modelMatrix\<close>, and calls
  \<open>resetOrientation\<close>, \<open>updateLocation\<close>, \<open>updateTranslationMatrix\<close> and
  \<open>generateSphere\<close>. The members it leaves to those calls (the angles, \<open>position\<close>,
  \<open>rotationAxis\<close>, the three transforms) are written by them before anything reads
  them; the record needs a value there, and zero, the empty list and the identity stand
  in. Default arguments are written out at the call sites.
\<close>

definition Planet_ctor ::
  "glm \<Rightarrow> world \<Rightarrow> real \<Rightarrow> string \<Rightarrow> real \<Rightarrow> real \<Rightarrow> real \<Rightarrow> real \<Rightarrow> addr option \<Rightarrow> real
     \<Rightarrow> Planet option" where
  "Planet_ctor G w actualRadius texturePath axialSpeed orbitSpeed orbitalIncl tilt parentPtr
       actualDistanceFromParent =
     (let p0 = \<lparr>orbitalInclination = orbitalIncl,
                axialTilt = tilt,
                distanceFromParent = actualDistanceFromParent * modelScale,
                orbitalSpeed = orbitSpeed,
                rotationSpeed = axialSpeed,
                radius = actualRadius * modelScale,
                orbitalAngle = 0,
                axialAngle = 0,
                parent = parentPtr,
                position = Vec3 0 0 0,
                rotationAxis = Vec3 0 0 0,
                cpuGeom = \<lparr>verts = [], texCoords = [], normals = []\<rparr>,
                gpuGeom = \<lparr>gpu_verts = [], gpu_texCoords = [], gpu_normals = []\<rparr>,
                texture = texturePath,
                modelMatrix = mat4_identity,
                translationMatrix = mat4_identity,
                axialRotationMatrix = mat4_identity,
                negAxialRotationMatrix = mat4_identity\<rparr>
      in case updateLocation w (resetOrientation G p0) of
           None \<Rightarrow> None
         | Some p2 \<Rightarrow> Some (generateSphere G (updateTranslationMatrix G p2)))"

section \<open>Input handling and the render loop\<close>

definition GLFW_PRESS :: int where "GLFW_PRESS = 1"
definition GLFW_KEY_SPACE :: int where "GLFW_KEY_SPACE = 32"
definition GLFW_KEY_R :: int where "GLFW_KEY_R = 82"
definition GLFW_KEY_DOWN :: int where "GLFW_KEY_DOWN = 264"
definition GLFW_KEY_UP :: int where "GLFW_KEY_UP = 265"

definition keyCallback :: "int \<Rightarrow> int \<Rightarrow> int \<Rightarrow> int \<Rightarrow> world \<Rightarrow> world" where
  "keyCallback key scancode action mods w =
     (if key = GLFW_KEY_SPACE \<and> action = GLFW_PRESS then
        w\<lparr>isAnimating := \<not> isAnimating w\<rparr>
      else if key = GLFW_KEY_UP \<and> action = GLFW_PRESS \<and> isAnimating w then
        w\<lparr>animationSpeed := animationSpeed w + 0.1\<rparr>
      else if key = GLFW_KEY_DOWN \<and> action = GLFW_PRESS \<and> isAnimating w then
        w\<lparr>animationSpeed := max 0 (animationSpeed w - 0.1)\<rparr>
      else if key = GLFW_KEY_R \<and> action = GLFW_PRESS then
        w\<lparr>restartAnimation := True\<rparr>
      else w)"

text \<open>
  A key event is the argument list of \<open>keyCallback\<close>; \<open>glfwPollEvents\<close> delivers the
  pending ones in order. (Mouse, scroll and resize events reach only the camera, which
  is no part of this state.)
\<close>

type_synonym key_event = "int \<times> int \<times> int \<times> int"

definition glfwPollEvents :: "key_event list \<Rightarrow> world \<Rightarrow> world" where
  "glfwPollEvents evs w =
     fold (\<lambda>(key, scancode, action, mods). keyCallback key scancode action mods) evs w"

text \<open>The addresses of the four locals of \<open>main\<close>.\<close>

definition sun :: addr where "sun = 0"
definition earth :: addr where "earth = 1"
definition moon :: addr where "moon = 2"
definition starBackground :: addr where "starBackground = 3"

text \<open>\<open>main\<close> up to the render loop; \<open>t0\<close> is what \<open>glfwGetTime\<close> returns there.\<close>

definition main_init :: "glm \<Rightarrow> real \<Rightarrow> world option" where
  "main_init G t0 =
     (let w0 = \<lparr>animationSpeed = 1, isAnimating = True, restartAnimation = False,
                lastUpdateTime = t0, currUpdateTime = 0, heap = Map.empty\<rparr>
      in do {
        p \<leftarrow> Planet_ctor G w0 sunRadius ''textures/2k_sun.jpg'' sunRotationSpeed 0 0 (PI / 2)
               None 0;
        let w1 = w0\<lparr>heap := (heap w0)(sun \<mapsto> p)\<rparr>;
        p \<leftarrow> Planet_ctor G w1 earthRadius ''textures/2k_earth_daymap.jpg'' earthRotationSpeed
               earthOrbitSpeed earthOrbitalInclination earthAxialTilt (Some sun) earthToSun;
        let w2 = w1\<lparr>heap := (heap w1)(earth \<mapsto> p)\<rparr>;
        p \<leftarrow> Planet_ctor G w2 moonRadius ''textures/2k_moon.jpg'' moonRotationSpeed
               moonOrbitSpeed moonOrbitalInclination moonAxialTilt (Some earth) moonToEarth;
        let w3 = w2\<lparr>heap := (heap w2)(moon \<mapsto> p)\<rparr>;
        p \<leftarrow> Planet_ctor G w3 backgroundRadius ''textures/2k_stars.jpg'' 0 0 0 (PI / 2) None 0;
        Some (w3\<lparr>heap := (heap w3)(starBackground \<mapsto> p)\<rparr>)
      })"

text \<open>\<open>x.resetOrientation()\<close> on the planet at an address of the store.\<close>

definition resetOrientation_at :: "glm \<Rightarrow> addr \<Rightarrow> world \<Rightarrow> world option" where
  "resetOrientation_at G a w =
     (case heap w a of
        None \<Rightarrow> None
      | Some p \<Rightarrow> Some (w\<lparr>heap := (heap w)(a \<mapsto> resetOrientation G p)\<rparr>))"

text \<open>
  The two blocks of the loop body that write the state. \<open>draw\<close> only reads, and the
  overlay is outside the model.
\<close>

definition serviceRestart :: "glm \<Rightarrow> world \<Rightarrow> world option" where
  "serviceRestart G w =
     (if restartAnimation w then do {
        w1 \<leftarrow> resetOrientation_at G sun w;
        w2 \<leftarrow> resetOrientation_at G earth w1;
        w3 \<leftarrow> resetOrientation_at G moon w2;
        Some (w3\<lparr>restartAnimation := False\<rparr>)
      } else Some w)"

text \<open>
  Each \<open>animate\<close> reads the clock itself: \<open>t1\<close>, \<open>t2\<close>, \<open>t3\<close> are the three readings of
  \<open>glfwGetTime\<close> in one iteration.
\<close>

definition animateAll :: "glm \<Rightarrow> real \<Rightarrow> real \<Rightarrow> real \<Rightarrow> world \<Rightarrow> world option" where
  "animateAll G t1 t2 t3 w =
     (if isAnimating w then do {
        w1 \<leftarrow> animate G t1 sun w;
        w2 \<leftarrow> animate G t2 earth w1;
        animate G t3 moon w2
      } else Some w)"

text \<open>One iteration of the render loop.\<close>

definition renderFrame ::
  "glm \<Rightarrow> key_event list \<Rightarrow> real \<Rightarrow> real \<Rightarrow> real \<Rightarrow> world \<Rightarrow> world option" where
  "renderFrame G evs t1 t2 t3 w = do {
     w1 \<leftarrow> serviceRestart G (glfwPollEvents evs w);
     animateAll G t1 t2 t3 w1
   }"

text \<open>
  The render loop over the iterations it makes before the window closes: each has its
  pending key events and its three clock readings.
\<close>

type_synonym frame_input = "key_event list \<times> real \<times> real \<times> real"

fun renderLoop :: "glm \<Rightarrow> frame_input list \<Rightarrow> world \<Rightarrow> world option" where
  "renderLoop G [] w = Some w"
| "renderLoop G ((evs, t1, t2, t3) # fs) w =
     (case renderFrame G evs t1 t2 t3 w of
        None \<Rightarrow> None
      | Some w' \<Rightarrow> renderLoop G fs w')"

section \<open>Vocabulary of the properties\<close>

subsection \<open>The mesh in closed form\<close>

text \<open>
  The corners of the grid cell at \<open>(u, v)\<close> that the loop body emits, in its order:
  \<open>{u+\<Delta>,v}, {u,v+\<Delta>}\<close> of the first triangle (its corner \<open>{u,v}\<close> is not emitted) and
  \<open>{u+\<Delta>,v}, {u+\<Delta>,v+\<Delta>}, {u,v+\<Delta>}\<close> of the second.
\<close>

definition cellCorners :: "real \<Rightarrow> real \<Rightarrow> (real \<times> real) list" where
  "cellCorners u v =
     [(u + uvInc, v), (u, v + uvInc), (u + uvInc, v), (u + uvInc, v + uvInc), (u, v + uvInc)]"

definition cellVerts :: "real \<Rightarrow> real \<Rightarrow> real \<Rightarrow> vec3 list" where
  "cellVerts r u v =
     map (\<lambda>(phi, theta). Vec3 (r * (sin phi * cos theta)) (r * (sin phi * sin theta)) (r * cos phi))
       (cellCorners u v)"

definition cellTexCoords :: "real \<Rightarrow> real \<Rightarrow> vec2 list" where
  "cellTexCoords u v = map (\<lambda>(phi, theta). Vec2 (theta / (2 * PI)) (phi / PI)) (cellCorners u v)"

text \<open>How often a loop \<open>for (x = x0; x <= bound; x += uvInc)\<close> runs its body.\<close>

definition loopCount :: "real \<Rightarrow> real \<Rightarrow> nat" where
  "loopCount bound x = nat (\<lfloor>(bound - x) / uvInc\<rfloor> + 1)"

definition rowVerts :: "real \<Rightarrow> real \<Rightarrow> real \<Rightarrow> vec3 list" where
  "rowVerts r u v =
     concat (map (\<lambda>j. cellVerts r u (v + real j * uvInc)) [0..<loopCount (2 * PI) v])"

definition rowTexCoords :: "real \<Rightarrow> real \<Rightarrow> vec2 list" where
  "rowTexCoords u v =
     concat (map (\<lambda>j. cellTexCoords u (v + real j * uvInc)) [0..<loopCount (2 * PI) v])"

definition sphereVerts :: "real \<Rightarrow> real \<Rightarrow> vec3 list" where
  "sphereVerts r u = concat (map (\<lambda>i. rowVerts r (u + real i * uvInc) 0) [0..<loopCount PI u])"

definition sphereTexCoords :: "real \<Rightarrow> vec2 list" where
  "sphereTexCoords u = concat (map (\<lambda>i. rowTexCoords (u + real i * uvInc) 0) [0..<loopCount PI u])"

subsection \<open>States\<close>

text \<open>The parent pointer of a planet is null or points to a planet of the store.\<close>

definition parent_ok :: "world \<Rightarrow> Planet \<Rightarrow> bool" where
  "parent_ok w p = (case parent p of None \<Rightarrow> True | Some b \<Rightarrow> heap w b \<noteq> None)"

text \<open>The three animated bodies exist and their parent pointers are good.\<close>

definition scene_ok :: "world \<Rightarrow> bool" where
  "scene_ok w =
     (case (heap w sun, heap w earth, heap w moon) of
        (Some s, Some e, Some m) \<Rightarrow> parent_ok w s \<and> parent_ok w e \<and> parent_ok w m
      | _ \<Rightarrow> False)"

text \<open>
  \<open>p'\<close> differs from \<open>p\<close> at most in the angles, the position, the three transforms and
  the normals; the GPU buffers hold the vertices and texture coordinates of \<open>p\<close> again.
\<close>

definition animated_only :: "Planet \<Rightarrow> Planet \<Rightarrow> bool" where
  "animated_only p p' \<longleftrightarrow>
     p' = p\<lparr>axialAngle := axialAngle p', orbitalAngle := orbitalAngle p', position := position p',
            translationMatrix := translationMatrix p',
            axialRotationMatrix := axialRotationMatrix p',
            negAxialRotationMatrix := negAxialRotationMatrix p',
            cpuGeom := (cpuGeom p)\<lparr>normals := normals (cpuGeom p')\<rparr>,
            gpuGeom := \<lparr>gpu_verts = verts (cpuGeom p), gpu_texCoords = texCoords (cpuGeom p),
              gpu_normals = gpu_normals (gpuGeom p')\<rparr>\<rparr>"

text \<open>A key event that toggles the pause flag.\<close>

definition spacePressed :: "key_event \<Rightarrow> bool" where
  "spacePressed e =
     (case e of (key, scancode, action, mods) \<Rightarrow> key = GLFW_KEY_SPACE \<and> action = GLFW_PRESS)"

text \<open>
  A body outside any scene, to run the mesh generator on: radius \<open>r\<close>, at \<open>pos\<close>, with a
  one-vertex mesh left in its buffers.
\<close>

definition demo_body :: "real \<Rightarrow> vec3 \<Rightarrow> Planet" where
  "demo_body r pos =
     \<lparr>orbitalInclination = 0, axialTilt = PI / 2, distanceFromParent = 0, orbitalSpeed = 0,
      rotationSpeed = 1, radius = r, orbitalAngle = PI / 2, axialAngle = PI / 2, parent = None,
      position = pos, rotationAxis = Vec3 0 1 0,
      cpuGeom = \<lparr>verts = [Vec3 1 0 0], texCoords = [Vec2 0 0], normals = [Vec3 1 0 0]\<rparr>,
      gpuGeom = \<lparr>gpu_verts = [Vec3 1 0 0], gpu_texCoords = [Vec2 0 0], gpu_normals = [Vec3 1 0 0]\<rparr>,
      texture = ''demo'', modelMatrix = mat4_identity, translationMatrix = mat4_identity,
      axialRotationMatrix = mat4_identity, negAxialRotationMatrix = mat4_identity\<rparr>"

section \<open>Key events\<close>

lemma keyCallback_speed_nonneg:
  "0 \<le> animationSpeed w \<Longrightarrow> 0 \<le> animationSpeed (keyCallback key scancode action mods w)"
  by (simp add: keyCallback_def)

lemma keyCallback_frame:
  "heap (keyCallback key scancode action mods w) = heap w \<and>
   lastUpdateTime (keyCallback key scancode action mods w) = lastUpdateTime w \<and>
   currUpdateTime (keyCallback key scancode action mods w) = currUpdateTime w"
  by (simp add: keyCallback_def)

lemma keyCallback_paused:
  "\<not> isAnimating w \<Longrightarrow> \<not> spacePressed (key, scancode, action, mods) \<Longrightarrow>
     \<not> isAnimating (keyCallback key scancode action mods w) \<and>
     animationSpeed (keyCallback key scancode action mods w) = animationSpeed w"
  by (simp add: keyCallback_def spacePressed_def)

lemma glfwPollEvents_Cons:
  "glfwPollEvents ((key, scancode, action, mods) # evs) w =
     glfwPollEvents evs (keyCallback key scancode action mods w)"
  by (simp add: glfwPollEvents_def)

lemma glfwPollEvents_Nil: "glfwPollEvents [] w = w"
  by (simp add: glfwPollEvents_def)

lemma glfwPollEvents_speed_nonneg:
  "0 \<le> animationSpeed w \<Longrightarrow> 0 \<le> animationSpeed (glfwPollEvents evs w)"
proof (induction evs arbitrary: w)
  case Nil
  then show ?case by (simp add: glfwPollEvents_Nil)
next
  case (Cons e evs)
  obtain key scancode action mods where e: "e = (key, scancode, action, mods)"
    by (cases e) auto
  have "0 \<le> animationSpeed (keyCallback key scancode action mods w)"
    using Cons.prems by (rule keyCallback_speed_nonneg)
  then have "0 \<le> animationSpeed (glfwPollEvents evs (keyCallback key scancode action mods w))"
    by (rule Cons.IH)
  then show ?case by (simp add: glfwPollEvents_Cons e)
qed

lemma glfwPollEvents_frame:
  "heap (glfwPollEvents evs w) = heap w \<and> lastUpdateTime (glfwPollEvents evs w) = lastUpdateTime w \<and>
   currUpdateTime (glfwPollEvents evs w) = currUpdateTime w"
proof (induction evs arbitrary: w)
  case Nil
  show ?case by (simp add: glfwPollEvents_Nil)
next
  case (Cons e evs)
  obtain key scancode action mods where e: "e = (key, scancode, action, mods)"
    by (cases e) auto
  show ?case
    unfolding e glfwPollEvents_Cons using Cons.IH keyCallback_frame by simp
qed

lemma glfwPollEvents_paused:
  "\<not> isAnimating w \<Longrightarrow> \<forall>e\<in>set evs. \<not> spacePressed e \<Longrightarrow>
     \<not> isAnimating (glfwPollEvents evs w) \<and> animationSpeed (glfwPollEvents evs w) = animationSpeed w"
proof (induction evs arbitrary: w)
  case Nil
  then show ?case by (simp add: glfwPollEvents_Nil)
next
  case (Cons e evs)
  obtain key scancode action mods where e: "e = (key, scancode, action, mods)"
    by (cases e) auto
  have k: "\<not> isAnimating (keyCallback key scancode action mods w) \<and>
      animationSpeed (keyCallback key scancode action mods w) = animationSpeed w"
    using Cons.prems by (intro keyCallback_paused) (simp_all add: e)
  have "\<not> isAnimating (glfwPollEvents evs (keyCallback key scancode action mods w)) \<and>
      animationSpeed (glfwPollEvents evs (keyCallback key scancode action mods w)) =
        animationSpeed (keyCallback key scancode action mods w)"
    using k Cons.prems(2) by (intro Cons.IH) simp_all
  then show ?case
    using k by (simp add: glfwPollEvents_Cons e)
qed

section \<open>One call of animate\<close>

lemma updateLocation_None_parent:
  "parent p = None \<Longrightarrow> updateLocation w p = Some (p\<lparr>position := Vec3 0 0 0\<rparr>)"
  by (simp add: updateLocation_def)

lemma updateLocation_Some_parent:
  "parent p = Some a \<Longrightarrow> heap w a = Some q \<Longrightarrow>
     updateLocation w p =
       Some (p\<lparr>position := vec3_add (position q)
         (vec3_scale (distanceFromParent p)
            (Vec3 (sin (orbitalAngle p)) (sin (orbitalAngle p) * sin (orbitalInclination p))
               (cos (orbitalAngle p))))\<rparr>)"
  by (simp add: updateLocation_def getPosition_def)

lemma updateLocation_total:
  "parent_ok w p \<Longrightarrow> \<exists>p'. updateLocation w p = Some p'"
  by (auto simp: parent_ok_def updateLocation_def split: option.splits)

lemma updateLocation_frame:
  "updateLocation w p = Some p' \<Longrightarrow> p' = p\<lparr>position := position p'\<rparr>"
  by (auto simp: updateLocation_def  split: option.splits)

lemma updateNormals_frame:
  "updateNormals G p = p\<lparr>cpuGeom := (cpuGeom p)\<lparr>normals := map (getNormal G p) (verts (cpuGeom p))\<rparr>,
      gpuGeom := \<lparr>gpu_verts = verts (cpuGeom p), gpu_texCoords = texCoords (cpuGeom p),
        gpu_normals = map (getNormal G p) (verts (cpuGeom p))\<rparr>\<rparr>"
  by (simp add: updateNormals_def updateGPUGeom_def)

lemma updateTranslationMatrix_frame:
  "updateTranslationMatrix G p = p\<lparr>translationMatrix := translationMatrix (updateTranslationMatrix G p)\<rparr>"
  by (simp add: updateTranslationMatrix_def)

lemma updateAxialRotation_frame:
  "updateAxialRotation G w p =
     p\<lparr>axialAngle := axialAngle p + rotationSpeed p * animationSpeed w * getElapsedTime w,
       axialRotationMatrix := axialRotationMatrix (updateAxialRotation G w p),
       negAxialRotationMatrix := negAxialRotationMatrix (updateAxialRotation G w p)\<rparr>"
  by (simp add: updateAxialRotation_def Let_def)

text \<open>What one animate call does, in one equation.\<close>

lemma animate_Some_iff:
  "animate G now a w = Some w' \<longleftrightarrow>
     (\<exists>p p2. heap w a = Some p \<and>
        updateLocation (w\<lparr>currUpdateTime := now\<rparr>)
          ((updateAxialRotation G (w\<lparr>currUpdateTime := now\<rparr>) p)
             \<lparr>orbitalAngle := orbitalAngle p + orbitalSpeed p * animationSpeed w * (now - lastUpdateTime w)\<rparr>)
          = Some p2 \<and>
        w' = w\<lparr>currUpdateTime := now,
               heap := (heap w)(a \<mapsto> updateTranslationMatrix G (updateNormals G p2)),
               lastUpdateTime := now\<rparr>)"
  by (auto simp: animate_def updateOrbitalRotation_def Let_def getElapsedTime_def updateAxialRotation_def
      split: option.splits)

lemma animate_total:
  assumes "heap w a = Some p" and "parent_ok w p"
  shows "\<exists>w'. animate G now a w = Some w'"
proof -
  let ?w1 = "w\<lparr>currUpdateTime := now\<rparr>"
  let ?p1 = "(updateAxialRotation G ?w1 p)
      \<lparr>orbitalAngle := orbitalAngle p + orbitalSpeed p * animationSpeed w * (now - lastUpdateTime w)\<rparr>"
  have "parent_ok ?w1 ?p1"
    using assms(2) by (simp add: parent_ok_def updateAxialRotation_def Let_def split: option.splits)
  then obtain p2 where "updateLocation ?w1 ?p1 = Some p2"
    using updateLocation_total by blast
  then show ?thesis
    using assms(1) by (simp add: animate_Some_iff)
qed

lemma animate_planet:
  assumes "heap w a = Some p" and "animate G now a w = Some w'"
  shows "\<exists>pos trn.
     heap w' a = Some (p\<lparr>
       axialAngle := axialAngle p + rotationSpeed p * animationSpeed w * (now - lastUpdateTime w),
       axialRotationMatrix := glm_rotate G (modelMatrix p)
         (axialAngle p + rotationSpeed p * animationSpeed w * (now - lastUpdateTime w)) (rotationAxis p),
       negAxialRotationMatrix := glm_rotate G (modelMatrix p)
         (- (axialAngle p + rotationSpeed p * animationSpeed w * (now - lastUpdateTime w))) (rotationAxis p),
       orbitalAngle := orbitalAngle p + orbitalSpeed p * animationSpeed w * (now - lastUpdateTime w),
       position := pos,
       cpuGeom := (cpuGeom p)\<lparr>normals := map (\<lambda>v. glm_normalize G (vec3_sub v pos)) (verts (cpuGeom p))\<rparr>,
       gpuGeom := \<lparr>gpu_verts = verts (cpuGeom p), gpu_texCoords = texCoords (cpuGeom p),
         gpu_normals = map (\<lambda>v. glm_normalize G (vec3_sub v pos)) (verts (cpuGeom p))\<rparr>,
       translationMatrix := trn\<rparr>)"
proof -
  let ?w1 = "w\<lparr>currUpdateTime := now\<rparr>"
  let ?p1 = "(updateAxialRotation G ?w1 p)
      \<lparr>orbitalAngle := orbitalAngle p + orbitalSpeed p * animationSpeed w * (now - lastUpdateTime w)\<rparr>"
  from assms obtain p2 where
    loc: "updateLocation ?w1 ?p1 = Some p2" and
    w': "w' = w\<lparr>currUpdateTime := now,
               heap := (heap w)(a \<mapsto> updateTranslationMatrix G (updateNormals G p2)),
               lastUpdateTime := now\<rparr>"
    by (auto simp: animate_Some_iff)
  have p2: "p2 = ?p1\<lparr>position := position p2\<rparr>"
    using loc by (rule updateLocation_frame)
  have "updateTranslationMatrix G (updateNormals G (?p1\<lparr>position := position p2\<rparr>)) =
     p\<lparr>
       axialAngle := axialAngle p + rotationSpeed p * animationSpeed w * (now - lastUpdateTime w),
       axialRotationMatrix := glm_rotate G (modelMatrix p)
         (axialAngle p + rotationSpeed p * animationSpeed w * (now - lastUpdateTime w)) (rotationAxis p),
       negAxialRotationMatrix := glm_rotate G (modelMatrix p)
         (- (axialAngle p + rotationSpeed p * animationSpeed w * (now - lastUpdateTime w))) (rotationAxis p),
       orbitalAngle := orbitalAngle p + orbitalSpeed p * animationSpeed w * (now - lastUpdateTime w),
       position := position p2,
       cpuGeom := (cpuGeom p)\<lparr>normals := map (\<lambda>v. glm_normalize G (vec3_sub v (position p2))) (verts (cpuGeom p))\<rparr>,
       gpuGeom := \<lparr>gpu_verts = verts (cpuGeom p), gpu_texCoords = texCoords (cpuGeom p),
         gpu_normals = map (\<lambda>v. glm_normalize G (vec3_sub v (position p2))) (verts (cpuGeom p))\<rparr>,
       translationMatrix := translationMatrix
          (updateTranslationMatrix G (updateNormals G (?p1\<lparr>position := position p2\<rparr>)))\<rparr>"
    by (simp add: updateTranslationMatrix_def updateNormals_def updateGPUGeom_def
        updateAxialRotation_def getNormal_def getElapsedTime_def Let_def)
  moreover have "heap w' a = Some (updateTranslationMatrix G (updateNormals G p2))"
    by (simp add: w')
  ultimately show ?thesis
    using p2 by (intro exI [of _ "position p2"] exI) simp
qed

section \<open>The generated mesh\<close>

lemma drawCell_eq:
  "drawCell u v p =
     p\<lparr>cpuGeom := (cpuGeom p)\<lparr>verts := verts (cpuGeom p) @ cellVerts (radius p) u v,
       texCoords := texCoords (cpuGeom p) @ cellTexCoords u v\<rparr>\<rparr>"
  by (simp add: drawCell_def drawPoint_def Let_def getVertexCoord_def getTextureCoord_def
      cellVerts_def cellTexCoords_def cellCorners_def)

lemma loopCount_step: "x \<le> b \<Longrightarrow> loopCount b x = Suc (loopCount b (x + uvInc))"
proof -
  assume le: "x \<le> b"
  have eq: "(b - (x + uvInc)) / uvInc = (b - x) / uvInc - 1"
    by (simp add: uvInc_def field_simps)
  have "0 \<le> (b - x) / uvInc"
    using le by (simp add: uvInc_def)
  then have "0 \<le> \<lfloor>(b - x) / uvInc\<rfloor>"
    by simp
  then show ?thesis
    by (simp add: loopCount_def eq nat_add_distrib)
qed

lemma loopCount_done: "\<not> x \<le> b \<Longrightarrow> loopCount b x = 0"
proof -
  assume "\<not> x \<le> b"
  then have "(b - x) / uvInc < 0"
    by (simp add: uvInc_def)
  then have "\<lfloor>(b - x) / uvInc\<rfloor> < 0"
    by (simp only: floor_less_zero)
  then have "\<lfloor>(b - x) / uvInc\<rfloor> + 1 \<le> 0"
    by linarith
  then show ?thesis
    unfolding loopCount_def by (rule nat_0_iff [THEN iffD2])
qed

lemma rowVerts_step:
  "v \<le> 2 * PI \<Longrightarrow> rowVerts r u v = cellVerts r u v @ rowVerts r u (v + uvInc)"
  unfolding rowVerts_def by (subst loopCount_step, assumption) (simp add: map_upt_Suc add.assoc distrib_right del: upt_Suc)

lemma rowTexCoords_step:
  "v \<le> 2 * PI \<Longrightarrow> rowTexCoords u v = cellTexCoords u v @ rowTexCoords u (v + uvInc)"
  unfolding rowTexCoords_def by (subst loopCount_step, assumption) (simp add: map_upt_Suc add.assoc distrib_right del: upt_Suc)

lemma sphereVerts_step:
  "u \<le> PI \<Longrightarrow> sphereVerts r u = rowVerts r u 0 @ sphereVerts r (u + uvInc)"
  unfolding sphereVerts_def by (subst loopCount_step, assumption) (simp add: map_upt_Suc add.assoc distrib_right del: upt_Suc)

lemma sphereTexCoords_step:
  "u \<le> PI \<Longrightarrow> sphereTexCoords u = rowTexCoords u 0 @ sphereTexCoords (u + uvInc)"
  unfolding sphereTexCoords_def by (subst loopCount_step, assumption) (simp add: map_upt_Suc add.assoc distrib_right del: upt_Suc)

lemma generateSphere_v_eq:
  "generateSphere_v u v p =
     p\<lparr>cpuGeom := (cpuGeom p)\<lparr>verts := verts (cpuGeom p) @ rowVerts (radius p) u v,
       texCoords := texCoords (cpuGeom p) @ rowTexCoords u v\<rparr>\<rparr>"
proof (induction u v p rule: generateSphere_v.induct)
  case (1 u v p)
  show ?case
  proof (cases "v \<le> 2 * PI")
    case True
    have "generateSphere_v u v p = generateSphere_v u (v + uvInc) (drawCell u v p)"
      using True by (subst generateSphere_v.simps) simp
    also have "\<dots> = (drawCell u v p)\<lparr>cpuGeom := (cpuGeom (drawCell u v p))
        \<lparr>verts := verts (cpuGeom (drawCell u v p)) @ rowVerts (radius (drawCell u v p)) u (v + uvInc),
         texCoords := texCoords (cpuGeom (drawCell u v p)) @ rowTexCoords u (v + uvInc)\<rparr>\<rparr>"
      using True by (rule "1.IH")
    also have "\<dots> = p\<lparr>cpuGeom := (cpuGeom p)\<lparr>verts := verts (cpuGeom p) @ rowVerts (radius p) u v,
       texCoords := texCoords (cpuGeom p) @ rowTexCoords u v\<rparr>\<rparr>"
      unfolding rowVerts_step [OF True, of "radius p" u] rowTexCoords_step [OF True, of u]
      by (simp add: drawCell_eq)
    finally show ?thesis .
  next
    case False
    have "generateSphere_v u v p = p"
      using False by (subst generateSphere_v.simps) simp
    then show ?thesis
      using False by (simp add: rowVerts_def rowTexCoords_def loopCount_done)
  qed
qed

lemma generateSphere_u_eq:
  "generateSphere_u u p =
     p\<lparr>cpuGeom := (cpuGeom p)\<lparr>verts := verts (cpuGeom p) @ sphereVerts (radius p) u,
       texCoords := texCoords (cpuGeom p) @ sphereTexCoords u\<rparr>\<rparr>"
proof (induction u p rule: generateSphere_u.induct)
  case (1 u p)
  show ?case
  proof (cases "u \<le> PI")
    case True
    let ?q = "generateSphere_v u 0 p"
    have "generateSphere_u u p = generateSphere_u (u + uvInc) ?q"
      using True by (subst generateSphere_u.simps) simp
    also have "\<dots> = ?q\<lparr>cpuGeom := (cpuGeom ?q)
        \<lparr>verts := verts (cpuGeom ?q) @ sphereVerts (radius ?q) (u + uvInc),
         texCoords := texCoords (cpuGeom ?q) @ sphereTexCoords (u + uvInc)\<rparr>\<rparr>"
      using True by (rule "1.IH")
    also have "\<dots> = p\<lparr>cpuGeom := (cpuGeom p)\<lparr>verts := verts (cpuGeom p) @ sphereVerts (radius p) u,
       texCoords := texCoords (cpuGeom p) @ sphereTexCoords u\<rparr>\<rparr>"
      unfolding sphereVerts_step [OF True, of "radius p"] sphereTexCoords_step [OF True]
      by (simp add: generateSphere_v_eq)
    finally show ?thesis .
  next
    case False
    have "generateSphere_u u p = p"
      using False by (subst generateSphere_u.simps) simp
    then show ?thesis
      using False by (simp add: sphereVerts_def sphereTexCoords_def loopCount_done)
  qed
qed

lemma loopCount_v0: "loopCount (2 * PI) 0 = 63"
  by (simp add: loopCount_def PI_def uvInc_def)

lemma loopCount_u0: "loopCount PI 0 = 32"
  by (simp add: loopCount_def PI_def uvInc_def)

lemma generateSphere_eq:
  "generateSphere G p =
     p\<lparr>cpuGeom := \<lparr>verts = sphereVerts (radius p) 0, texCoords = sphereTexCoords 0,
          normals = map (\<lambda>v. glm_normalize G (vec3_sub v (position p))) (sphereVerts (radius p) 0)\<rparr>,
       gpuGeom := \<lparr>gpu_verts = sphereVerts (radius p) 0, gpu_texCoords = sphereTexCoords 0,
          gpu_normals = map (\<lambda>v. glm_normalize G (vec3_sub v (position p))) (sphereVerts (radius p) 0)\<rparr>\<rparr>"
  by (simp add: generateSphere_def Let_def generateSphere_u_eq updateNormals_def
      updateGPUGeom_def getNormal_def)

lemma length_cellVerts: "length (cellVerts r u v) = 5"
  by (simp add: cellVerts_def cellCorners_def)

lemma length_cellTexCoords: "length (cellTexCoords u v) = 5"
  by (simp add: cellTexCoords_def cellCorners_def)

lemma length_rowVerts: "length (rowVerts r u 0) = 315"
  by (simp add: rowVerts_def loopCount_v0 length_concat comp_def length_cellVerts sum_list_triv
      del: upt_Suc)

lemma length_rowTexCoords: "length (rowTexCoords u 0) = 315"
  by (simp add: rowTexCoords_def loopCount_v0 length_concat comp_def length_cellTexCoords sum_list_triv
      del: upt_Suc)

lemma length_sphereVerts: "length (sphereVerts r 0) = 10080"
  by (simp add: sphereVerts_def loopCount_u0 length_concat comp_def length_rowVerts sum_list_triv
      del: upt_Suc)

lemma length_sphereTexCoords: "length (sphereTexCoords 0) = 10080"
  by (simp add: sphereTexCoords_def loopCount_u0 length_concat comp_def length_rowTexCoords sum_list_triv
      del: upt_Suc)

lemma grid_bounds:
  "real 31 * uvInc \<le> PI \<and> PI < real 32 * uvInc \<and> real 62 * uvInc \<le> 2 * PI \<and> 2 * PI < real 63 * uvInc"
  by (simp add: PI_def uvInc_def)

section \<open>Frames\<close>

lemma sun_earth_moon_distinct:
  "sun \<noteq> earth" "sun \<noteq> moon" "earth \<noteq> moon" "earth \<noteq> sun" "moon \<noteq> sun" "moon \<noteq> earth"
  by (simp_all add: sun_def earth_def moon_def)

lemma animate_heap_other:
  "animate G now a w = Some w' \<Longrightarrow> b \<noteq> a \<Longrightarrow> heap w' b = heap w b"
  by (auto simp: animate_Some_iff)

lemma animate_globals:
  "animate G now a w = Some w' \<Longrightarrow>
     animationSpeed w' = animationSpeed w \<and> isAnimating w' = isAnimating w \<and>
     restartAnimation w' = restartAnimation w \<and> lastUpdateTime w' = now \<and> currUpdateTime w' = now"
  by (auto simp: animate_Some_iff)

lemma animate_angles:
  assumes "heap w a = Some p" and "animate G now a w = Some w'"
  shows "\<exists>p'. heap w' a = Some p' \<and>
       axialAngle p' = axialAngle p + rotationSpeed p * animationSpeed w * (now - lastUpdateTime w) \<and>
       orbitalAngle p' = orbitalAngle p + orbitalSpeed p * animationSpeed w * (now - lastUpdateTime w)"
proof -
  from animate_planet [OF assms] obtain p' where "heap w' a = Some p'"
    and "axialAngle p' = axialAngle p + rotationSpeed p * animationSpeed w * (now - lastUpdateTime w)"
    and "orbitalAngle p' = orbitalAngle p + orbitalSpeed p * animationSpeed w * (now - lastUpdateTime w)"
    by auto
  then show ?thesis by blast
qed

lemma animate_animated_only:
  assumes "heap w a = Some p" and "animate G now a w = Some w'"
  shows "\<exists>p'. heap w' a = Some p' \<and> animated_only p p'"
proof -
  from animate_planet [OF assms] obtain pos trn where
    "heap w' a = Some (p\<lparr>
       axialAngle := axialAngle p + rotationSpeed p * animationSpeed w * (now - lastUpdateTime w),
       axialRotationMatrix := glm_rotate G (modelMatrix p)
         (axialAngle p + rotationSpeed p * animationSpeed w * (now - lastUpdateTime w)) (rotationAxis p),
       negAxialRotationMatrix := glm_rotate G (modelMatrix p)
         (- (axialAngle p + rotationSpeed p * animationSpeed w * (now - lastUpdateTime w))) (rotationAxis p),
       orbitalAngle := orbitalAngle p + orbitalSpeed p * animationSpeed w * (now - lastUpdateTime w),
       position := pos,
       cpuGeom := (cpuGeom p)\<lparr>normals := map (\<lambda>v. glm_normalize G (vec3_sub v pos)) (verts (cpuGeom p))\<rparr>,
       gpuGeom := \<lparr>gpu_verts = verts (cpuGeom p), gpu_texCoords = texCoords (cpuGeom p),
         gpu_normals = map (\<lambda>v. glm_normalize G (vec3_sub v pos)) (verts (cpuGeom p))\<rparr>,
       translationMatrix := trn\<rparr>)"
    by blast
  then show ?thesis
    by (simp add: animated_only_def)
qed

lemma animated_only_parent: "animated_only p p' \<Longrightarrow> parent p' = parent p"
  unfolding animated_only_def by (drule arg_cong [where f = parent]) simp

lemma animate_dom:
  assumes "animate G now a w = Some w'"
  shows "heap w' b \<noteq> None \<longleftrightarrow> heap w b \<noteq> None"
  using assms by (auto simp: animate_Some_iff split: if_splits)

lemma animate_parent_ok:
  assumes an: "animate G now a w = Some w'" and q: "heap w b = Some q" and ok: "parent_ok w q"
  shows "\<exists>q'. heap w' b = Some q' \<and> parent q' = parent q \<and> parent_ok w' q'"
proof -
  have dom: "\<And>c. heap w' c \<noteq> None \<longleftrightarrow> heap w c \<noteq> None"
    using an by (rule animate_dom)
  have "\<exists>q'. heap w' b = Some q' \<and> parent q' = parent q"
  proof (cases "b = a")
    case True
    with animate_animated_only [OF _ an] q obtain q' where "heap w' b = Some q'" "animated_only q q'"
      by blast
    then show ?thesis
      using animated_only_parent by blast
  next
    case False
    then show ?thesis
      using animate_heap_other [OF an] q by simp
  qed
  then obtain q' where q': "heap w' b = Some q'" "parent q' = parent q"
    by blast
  have "parent_ok w' q'"
    using ok dom by (simp add: parent_ok_def q'(2) split: option.splits)
  with q' show ?thesis by blast
qed

lemma animate_scene_ok:
  assumes "animate G now a w = Some w'" and "scene_ok w"
  shows "scene_ok w'"
proof -
  from assms(2) obtain s e m where
    h: "heap w sun = Some s" "heap w earth = Some e" "heap w moon = Some m" and
    ok: "parent_ok w s" "parent_ok w e" "parent_ok w m"
    by (auto simp: scene_ok_def split: option.splits)
  from animate_parent_ok [OF assms(1) h(1) ok(1)] animate_parent_ok [OF assms(1) h(2) ok(2)]
    animate_parent_ok [OF assms(1) h(3) ok(3)]
  show ?thesis
    by (auto simp: scene_ok_def)
qed

lemma animateAll_total:
  assumes "scene_ok w"
  shows "\<exists>w'. animateAll G t1 t2 t3 w = Some w' \<and> scene_ok w'"
proof (cases "isAnimating w")
  case False
  then show ?thesis using assms by (simp add: animateAll_def)
next
  case True
  from assms obtain s where s: "heap w sun = Some s" "parent_ok w s"
    by (auto simp: scene_ok_def split: option.splits)
  then obtain w1 where w1: "animate G t1 sun w = Some w1"
    using animate_total by blast
  have ok1: "scene_ok w1" using w1 assms by (rule animate_scene_ok)
  then obtain e where e: "heap w1 earth = Some e" "parent_ok w1 e"
    by (auto simp: scene_ok_def split: option.splits)
  then obtain w2 where w2: "animate G t2 earth w1 = Some w2"
    using animate_total by blast
  have ok2: "scene_ok w2" using w2 ok1 by (rule animate_scene_ok)
  then obtain m where m: "heap w2 moon = Some m" "parent_ok w2 m"
    by (auto simp: scene_ok_def split: option.splits)
  then obtain w3 where w3: "animate G t3 moon w2 = Some w3"
    using animate_total by blast
  have "scene_ok w3" using w3 ok2 by (rule animate_scene_ok)
  then show ?thesis
    using True w1 w2 w3 by (simp add: animateAll_def)
qed

text \<open>The deltas the three bodies get in one animating iteration.\<close>

lemma animateAll_angles:
  assumes run: "animateAll G t1 t2 t3 w = Some w'" and anim: "isAnimating w"
    and s: "heap w sun = Some ps" and e: "heap w earth = Some pe" and m: "heap w moon = Some pm"
  shows "\<exists>ps' pe' pm'. heap w' sun = Some ps' \<and> heap w' earth = Some pe' \<and> heap w' moon = Some pm' \<and>
     axialAngle ps' = axialAngle ps + rotationSpeed ps * animationSpeed w * (t1 - lastUpdateTime w) \<and>
     orbitalAngle ps' = orbitalAngle ps + orbitalSpeed ps * animationSpeed w * (t1 - lastUpdateTime w) \<and>
     axialAngle pe' = axialAngle pe + rotationSpeed pe * animationSpeed w * (t2 - t1) \<and>
     orbitalAngle pe' = orbitalAngle pe + orbitalSpeed pe * animationSpeed w * (t2 - t1) \<and>
     axialAngle pm' = axialAngle pm + rotationSpeed pm * animationSpeed w * (t3 - t2) \<and>
     orbitalAngle pm' = orbitalAngle pm + orbitalSpeed pm * animationSpeed w * (t3 - t2)"
proof -
  from run anim obtain w1 w2 where
    a1: "animate G t1 sun w = Some w1" and a2: "animate G t2 earth w1 = Some w2" and
    a3: "animate G t3 moon w2 = Some w'"
    by (auto simp: animateAll_def bind_eq_Some_conv)
  note d = sun_earth_moon_distinct
  from animate_angles [OF s a1] obtain ps' where ps': "heap w1 sun = Some ps'"
    "axialAngle ps' = axialAngle ps + rotationSpeed ps * animationSpeed w * (t1 - lastUpdateTime w)"
    "orbitalAngle ps' = orbitalAngle ps + orbitalSpeed ps * animationSpeed w * (t1 - lastUpdateTime w)"
    by blast
  have e1: "heap w1 earth = Some pe" and m1: "heap w1 moon = Some pm"
    using animate_heap_other [OF a1] e m d by simp_all
  have g1: "animationSpeed w1 = animationSpeed w" "lastUpdateTime w1 = t1"
    using animate_globals [OF a1] by simp_all
  from animate_angles [OF e1 a2] obtain pe' where pe': "heap w2 earth = Some pe'"
    "axialAngle pe' = axialAngle pe + rotationSpeed pe * animationSpeed w * (t2 - t1)"
    "orbitalAngle pe' = orbitalAngle pe + orbitalSpeed pe * animationSpeed w * (t2 - t1)"
    unfolding g1 by blast
  have s2: "heap w2 sun = Some ps'" and m2: "heap w2 moon = Some pm"
    using animate_heap_other [OF a2] ps'(1) m1 d by simp_all
  have g2: "animationSpeed w2 = animationSpeed w" "lastUpdateTime w2 = t2"
    using animate_globals [OF a2] g1 by simp_all
  from animate_angles [OF m2 a3] obtain pm' where pm': "heap w' moon = Some pm'"
    "axialAngle pm' = axialAngle pm + rotationSpeed pm * animationSpeed w * (t3 - t2)"
    "orbitalAngle pm' = orbitalAngle pm + orbitalSpeed pm * animationSpeed w * (t3 - t2)"
    unfolding g2 by blast
  have "heap w' sun = Some ps'" and "heap w' earth = Some pe'"
    using animate_heap_other [OF a3] s2 pe'(1) d by simp_all
  with ps' pe' pm' show ?thesis by blast
qed

section \<open>Resets, paused iterations and the whole loop\<close>

lemma resetOrientation_eq:
  "resetOrientation G p =
     p\<lparr>orbitalAngle := PI / 2, axialAngle := PI / 2,
       axialRotationMatrix :=
         glm_rotate G (modelMatrix p) (orbitalInclination p + PI / 2 + axialTilt p) xAxisOfRotation,
       negAxialRotationMatrix := modelMatrix p,
       rotationAxis :=
         vec3_of_vec4 (mat4_mul_vec4
           (glm_rotate G (modelMatrix p) (orbitalInclination p + PI / 2 + axialTilt p) xAxisOfRotation)
           yAxisMatrix)\<rparr>"
  by (simp add: resetOrientation_def Let_def)

lemma resetOrientation_at_Some_iff:
  "resetOrientation_at G a w = Some w' \<longleftrightarrow>
     (\<exists>p. heap w a = Some p \<and> w' = w\<lparr>heap := (heap w)(a \<mapsto> resetOrientation G p)\<rparr>)"
  by (auto simp: resetOrientation_at_def split: option.splits)

lemma resetOrientation_at_globals:
  "resetOrientation_at G a w = Some w' \<Longrightarrow>
     animationSpeed w' = animationSpeed w \<and> isAnimating w' = isAnimating w \<and>
     restartAnimation w' = restartAnimation w \<and> lastUpdateTime w' = lastUpdateTime w \<and>
     currUpdateTime w' = currUpdateTime w"
  by (auto simp: resetOrientation_at_Some_iff)

lemma resetOrientation_at_place:
  assumes "resetOrientation_at G a w = Some w'"
  shows "map_option position (heap w' b) = map_option position (heap w b) \<and>
     map_option translationMatrix (heap w' b) = map_option translationMatrix (heap w b) \<and>
     map_option parent (heap w' b) = map_option parent (heap w b)"
  using assms by (auto simp: resetOrientation_at_Some_iff resetOrientation_eq)

lemma serviceRestart_globals:
  "serviceRestart G w = Some w' \<Longrightarrow>
     animationSpeed w' = animationSpeed w \<and> isAnimating w' = isAnimating w \<and>
     restartAnimation w' = False \<and> lastUpdateTime w' = lastUpdateTime w \<and>
     currUpdateTime w' = currUpdateTime w"
  by (auto simp: serviceRestart_def bind_eq_Some_conv split: if_splits
      dest!: resetOrientation_at_globals)

lemma serviceRestart_place:
  assumes "serviceRestart G w = Some w'"
  shows "map_option position (heap w' b) = map_option position (heap w b) \<and>
     map_option translationMatrix (heap w' b) = map_option translationMatrix (heap w b) \<and>
     map_option parent (heap w' b) = map_option parent (heap w b)"
proof (cases "restartAnimation w")
  case False
  then show ?thesis using assms by (auto simp: serviceRestart_def)
next
  case True
  with assms obtain w1 w2 w3 where
    r: "resetOrientation_at G sun w = Some w1" "resetOrientation_at G earth w1 = Some w2"
       "resetOrientation_at G moon w2 = Some w3" and w': "w' = w3\<lparr>restartAnimation := False\<rparr>"
    by (auto simp: serviceRestart_def bind_eq_Some_conv)
  show ?thesis
    using resetOrientation_at_place [OF r(1), of b] resetOrientation_at_place [OF r(2), of b]
      resetOrientation_at_place [OF r(3), of b]
    by (simp add: w')
qed

lemma scene_ok_cong:
  assumes "scene_ok w" and "\<And>b. map_option parent (heap w' b) = map_option parent (heap w b)"
  shows "scene_ok w'"
proof -
  have dom: "heap w' b \<noteq> None \<longleftrightarrow> heap w b \<noteq> None" for b
    using assms(2) [of b] by (cases "heap w b"; cases "heap w' b") simp_all
  have par: "heap w b = Some q \<Longrightarrow> \<exists>q'. heap w' b = Some q' \<and> parent q' = parent q" for b q
    using assms(2) [of b] by (cases "heap w' b") simp_all
  have ok: "heap w b = Some q \<Longrightarrow> parent_ok w q \<Longrightarrow> \<exists>q'. heap w' b = Some q' \<and> parent_ok w' q'" for b q
    using par [of b q] dom by (auto simp: parent_ok_def split: option.splits)
  from assms(1) obtain s e m where
    h: "heap w sun = Some s" "heap w earth = Some e" "heap w moon = Some m" and
    k: "parent_ok w s" "parent_ok w e" "parent_ok w m"
    by (auto simp: scene_ok_def split: option.splits)
  from ok [OF h(1) k(1)] ok [OF h(2) k(2)] ok [OF h(3) k(3)] show ?thesis
    by (auto simp: scene_ok_def)
qed

lemma resetOrientation_at_total:
  "heap w a \<noteq> None \<Longrightarrow> \<exists>w'. resetOrientation_at G a w = Some w'"
  by (auto simp: resetOrientation_at_def)

lemma serviceRestart_total:
  assumes "scene_ok w"
  shows "\<exists>w'. serviceRestart G w = Some w' \<and> scene_ok w'"
proof (cases "restartAnimation w")
  case False
  then show ?thesis using assms by (simp add: serviceRestart_def)
next
  case True
  have "heap w sun \<noteq> None"
    using assms by (auto simp: scene_ok_def split: option.splits)
  then obtain w1 where r1: "resetOrientation_at G sun w = Some w1"
    using resetOrientation_at_total by blast
  have ok1: "scene_ok w1"
    by (rule scene_ok_cong [OF assms]) (simp add: resetOrientation_at_place [OF r1])
  then have "heap w1 earth \<noteq> None"
    by (auto simp: scene_ok_def split: option.splits)
  then obtain w2 where r2: "resetOrientation_at G earth w1 = Some w2"
    using resetOrientation_at_total by blast
  have ok2: "scene_ok w2"
    by (rule scene_ok_cong [OF ok1]) (simp add: resetOrientation_at_place [OF r2])
  then have "heap w2 moon \<noteq> None"
    by (auto simp: scene_ok_def split: option.splits)
  then obtain w3 where r3: "resetOrientation_at G moon w2 = Some w3"
    using resetOrientation_at_total by blast
  have ok3: "scene_ok w3"
    by (rule scene_ok_cong [OF ok2]) (simp add: resetOrientation_at_place [OF r3])
  have "scene_ok (w3\<lparr>restartAnimation := False\<rparr>)"
    using ok3 by (rule scene_ok_cong) simp
  then show ?thesis
    using True r1 r2 r3 by (simp add: serviceRestart_def)
qed

lemma glfwPollEvents_scene_ok: "scene_ok w \<Longrightarrow> scene_ok (glfwPollEvents evs w)"
  by (rule scene_ok_cong) (simp_all add: glfwPollEvents_frame)

text \<open>With the scene in place, an iteration of the loop runs to its end.\<close>

lemma renderFrame_total:
  assumes "scene_ok w"
  shows "\<exists>w'. renderFrame G evs t1 t2 t3 w = Some w' \<and> scene_ok w'"
proof -
  have "scene_ok (glfwPollEvents evs w)"
    using assms by (rule glfwPollEvents_scene_ok)
  then obtain w1 where w1: "serviceRestart G (glfwPollEvents evs w) = Some w1" "scene_ok w1"
    using serviceRestart_total by blast
  then obtain w2 where "animateAll G t1 t2 t3 w1 = Some w2" "scene_ok w2"
    using animateAll_total by blast
  with w1 show ?thesis
    by (simp add: renderFrame_def)
qed

lemma renderLoop_total:
  "scene_ok w \<Longrightarrow> \<exists>w'. renderLoop G fs w = Some w' \<and> scene_ok w'"
proof (induction fs arbitrary: w)
  case Nil
  then show ?case by simp
next
  case (Cons f fs)
  obtain evs t1 t2 t3 where f: "f = (evs, t1, t2, t3)"
    by (cases f) auto
  from Cons.prems obtain w1 where w1: "renderFrame G evs t1 t2 t3 w = Some w1" "scene_ok w1"
    using renderFrame_total by blast
  from Cons.IH [OF w1(2)] show ?case
    by (simp add: f w1(1))
qed

text \<open>A paused iteration calls no \<open>animate\<close>: it is the event poll and the reset service.\<close>

lemma renderFrame_paused:
  "\<not> isAnimating (glfwPollEvents evs w) \<Longrightarrow>
     renderFrame G evs t1 t2 t3 w = serviceRestart G (glfwPollEvents evs w)"
proof (cases "serviceRestart G (glfwPollEvents evs w)")
  case None
  then show ?thesis by (simp add: renderFrame_def)
next
  case (Some w1)
  assume "\<not> isAnimating (glfwPollEvents evs w)"
  then have "\<not> isAnimating w1"
    using serviceRestart_globals [OF Some] by simp
  then show ?thesis
    by (simp add: renderFrame_def Some animateAll_def)
qed

lemma renderFrame_stays_paused:
  assumes "\<not> isAnimating w" and "\<forall>e\<in>set evs. \<not> spacePressed e"
    and "renderFrame G evs t1 t2 t3 w = Some w'"
  shows "\<not> isAnimating w' \<and> animationSpeed w' = animationSpeed w \<and>
     lastUpdateTime w' = lastUpdateTime w \<and> currUpdateTime w' = currUpdateTime w"
proof -
  have p: "\<not> isAnimating (glfwPollEvents evs w) \<and> animationSpeed (glfwPollEvents evs w) = animationSpeed w"
    using assms(1,2) by (rule glfwPollEvents_paused)
  then have "serviceRestart G (glfwPollEvents evs w) = Some w'"
    using assms(3) renderFrame_paused by simp
  from serviceRestart_globals [OF this] p show ?thesis
    by (simp add: glfwPollEvents_frame)
qed

lemma renderLoop_stays_paused:
  "\<not> isAnimating w \<Longrightarrow> \<forall>f\<in>set fs. \<forall>e\<in>set (fst f). \<not> spacePressed e \<Longrightarrow>
     renderLoop G fs w = Some w' \<Longrightarrow>
     \<not> isAnimating w' \<and> animationSpeed w' = animationSpeed w \<and>
     lastUpdateTime w' = lastUpdateTime w \<and> currUpdateTime w' = currUpdateTime w"
proof (induction fs arbitrary: w)
  case Nil
  then show ?case by simp
next
  case (Cons f fs)
  obtain evs t1 t2 t3 where f: "f = (evs, t1, t2, t3)"
    by (cases f) auto
  from Cons.prems(3) obtain w1 where
    r: "renderFrame G evs t1 t2 t3 w = Some w1" and l: "renderLoop G fs w1 = Some w'"
    by (auto simp: f split: option.splits)
  have q: "\<forall>e\<in>set evs. \<not> spacePressed e"
    using Cons.prems(2) by (simp add: f)
  have s1: "\<not> isAnimating w1 \<and> animationSpeed w1 = animationSpeed w \<and>
     lastUpdateTime w1 = lastUpdateTime w \<and> currUpdateTime w1 = currUpdateTime w"
    using Cons.prems(1) q r by (rule renderFrame_stays_paused)
  have "\<not> isAnimating w' \<and> animationSpeed w' = animationSpeed w1 \<and>
     lastUpdateTime w' = lastUpdateTime w1 \<and> currUpdateTime w' = currUpdateTime w1"
    using s1 Cons.prems(2) l by (intro Cons.IH) simp_all
  with s1 show ?case by simp
qed

lemma animateAll_speed:
  "animateAll G t1 t2 t3 w = Some w' \<Longrightarrow>
     animationSpeed w' = animationSpeed w \<and> isAnimating w' = isAnimating w \<and>
     restartAnimation w' = restartAnimation w"
  by (auto simp: animateAll_def bind_eq_Some_conv split: if_splits dest!: animate_globals)

lemma renderFrame_speed_nonneg:
  assumes "0 \<le> animationSpeed w" and "renderFrame G evs t1 t2 t3 w = Some w'"
  shows "0 \<le> animationSpeed w'"
proof -
  from assms(2) obtain w1 where
    s: "serviceRestart G (glfwPollEvents evs w) = Some w1" and a: "animateAll G t1 t2 t3 w1 = Some w'"
    by (auto simp: renderFrame_def bind_eq_Some_conv)
  have "0 \<le> animationSpeed (glfwPollEvents evs w)"
    using assms(1) by (rule glfwPollEvents_speed_nonneg)
  with serviceRestart_globals [OF s] animateAll_speed [OF a] show ?thesis
    by simp
qed

lemma renderLoop_speed_nonneg:
  "0 \<le> animationSpeed w \<Longrightarrow> renderLoop G fs w = Some w' \<Longrightarrow> 0 \<le> animationSpeed w'"
proof (induction fs arbitrary: w)
  case Nil
  then show ?case by simp
next
  case (Cons f fs)
  obtain evs t1 t2 t3 where f: "f = (evs, t1, t2, t3)"
    by (cases f) auto
  from Cons.prems(2) obtain w1 where
    r: "renderFrame G evs t1 t2 t3 w = Some w1" and l: "renderLoop G fs w1 = Some w'"
    by (auto simp: f split: option.splits)
  have "0 \<le> animationSpeed w1"
    using Cons.prems(1) r by (rule renderFrame_speed_nonneg)
  then show ?case using l by (rule Cons.IH)
qed

section \<open>The scene that main builds\<close>

lemma Planet_ctor_root:
  "\<exists>p. Planet_ctor G w R tex axialSpeed orbitSpeed orbitalIncl tilt None d = Some p \<and>
     parent p = None \<and> axialAngle p = PI / 2 \<and> orbitalAngle p = PI / 2 \<and>
     rotationSpeed p = axialSpeed \<and> orbitalSpeed p = orbitSpeed \<and>
     orbitalInclination p = orbitalIncl \<and> axialTilt p = tilt \<and>
     radius p = R * modelScale \<and> distanceFromParent p = d * modelScale \<and>
     position p = Vec3 0 0 0 \<and> translationMatrix p = mat4_identity \<and>
     verts (cpuGeom p) = sphereVerts (R * modelScale) 0 \<and>
     texCoords (cpuGeom p) = sphereTexCoords 0"
  by (simp add: Planet_ctor_def updateLocation_def resetOrientation_eq generateSphere_eq
      updateTranslationMatrix_def)

lemma Planet_ctor_child:
  "heap w b = Some q \<Longrightarrow>
   \<exists>p. Planet_ctor G w R tex axialSpeed orbitSpeed orbitalIncl tilt (Some b) d = Some p \<and>
     parent p = Some b \<and> axialAngle p = PI / 2 \<and> orbitalAngle p = PI / 2 \<and>
     rotationSpeed p = axialSpeed \<and> orbitalSpeed p = orbitSpeed \<and>
     orbitalInclination p = orbitalIncl \<and> axialTilt p = tilt \<and>
     radius p = R * modelScale \<and> distanceFromParent p = d * modelScale \<and>
     position p = vec3_add (position q)
       (vec3_scale (d * modelScale) (Vec3 (sin (PI / 2)) (sin (PI / 2) * sin orbitalIncl) (cos (PI / 2)))) \<and>
     translationMatrix p = glm_translate G mat4_identity (position p) \<and>
     verts (cpuGeom p) = sphereVerts (R * modelScale) 0 \<and>
     texCoords (cpuGeom p) = sphereTexCoords 0"
  by (simp add: Planet_ctor_def updateLocation_def resetOrientation_eq generateSphere_eq
      updateTranslationMatrix_def getPosition_def)

lemma main_init_scene:
  "\<exists>w ps pe pm. main_init G t0 = Some w \<and> scene_ok w \<and>
     animationSpeed w = 1 \<and> isAnimating w \<and> \<not> restartAnimation w \<and> lastUpdateTime w = t0 \<and>
     heap w sun = Some ps \<and> heap w earth = Some pe \<and> heap w moon = Some pm \<and>
     parent ps = None \<and> parent pe = Some sun \<and> parent pm = Some earth \<and>
     axialAngle ps = PI / 2 \<and> orbitalAngle ps = PI / 2 \<and>
     axialAngle pe = PI / 2 \<and> orbitalAngle pe = PI / 2 \<and>
     axialAngle pm = PI / 2 \<and> orbitalAngle pm = PI / 2 \<and>
     rotationSpeed ps = sunRotationSpeed \<and> orbitalSpeed ps = 0 \<and>
     rotationSpeed pe = earthRotationSpeed \<and> orbitalSpeed pe = earthOrbitSpeed \<and>
     rotationSpeed pm = moonRotationSpeed \<and> orbitalSpeed pm = moonOrbitSpeed \<and>
     position ps = Vec3 0 0 0 \<and> distanceFromParent pe = earthToSun * modelScale \<and>
     orbitalInclination pe = earthOrbitalInclination \<and>
     position pe = Vec3 (earthToSun * modelScale * sin (PI / 2))
       (earthToSun * modelScale * (sin (PI / 2) * sin earthOrbitalInclination))
       (earthToSun * modelScale * cos (PI / 2)) \<and>
     distanceFromParent pm = moonToEarth * modelScale \<and>
     orbitalInclination pm = moonOrbitalInclination"
proof -
  let ?w0 = "\<lparr>animationSpeed = 1, isAnimating = True, restartAnimation = False,
     lastUpdateTime = t0, currUpdateTime = 0, heap = Map.empty\<rparr>"
  obtain ps where ps: "Planet_ctor G ?w0 sunRadius ''textures/2k_sun.jpg'' sunRotationSpeed 0 0 (PI / 2)
      None 0 = Some ps"
    "parent ps = None" "axialAngle ps = PI / 2" "orbitalAngle ps = PI / 2"
    "rotationSpeed ps = sunRotationSpeed" "orbitalSpeed ps = 0" "position ps = Vec3 0 0 0"
    using Planet_ctor_root [of G ?w0 sunRadius "''textures/2k_sun.jpg''" sunRotationSpeed 0 0 "PI / 2" 0]
    by blast
  let ?w1 = "?w0\<lparr>heap := (heap ?w0)(sun \<mapsto> ps)\<rparr>"
  have "heap ?w1 sun = Some ps" by simp
  from Planet_ctor_child [OF this, of G earthRadius "''textures/2k_earth_daymap.jpg''" earthRotationSpeed
      earthOrbitSpeed earthOrbitalInclination earthAxialTilt earthToSun]
  obtain pe where pe: "Planet_ctor G ?w1 earthRadius ''textures/2k_earth_daymap.jpg'' earthRotationSpeed
      earthOrbitSpeed earthOrbitalInclination earthAxialTilt (Some sun) earthToSun = Some pe"
    "parent pe = Some sun" "axialAngle pe = PI / 2" "orbitalAngle pe = PI / 2"
    "rotationSpeed pe = earthRotationSpeed" "orbitalSpeed pe = earthOrbitSpeed"
    "distanceFromParent pe = earthToSun * modelScale" "orbitalInclination pe = earthOrbitalInclination"
    "position pe = vec3_add (position ps)
       (vec3_scale (earthToSun * modelScale)
          (Vec3 (sin (PI / 2)) (sin (PI / 2) * sin earthOrbitalInclination) (cos (PI / 2))))"
    by blast
  have pe_pos: "position pe = Vec3 (earthToSun * modelScale * sin (PI / 2))
       (earthToSun * modelScale * (sin (PI / 2) * sin earthOrbitalInclination))
       (earthToSun * modelScale * cos (PI / 2))"
    by (simp add: pe(9) ps(7))
  let ?w2 = "?w1\<lparr>heap := (heap ?w1)(earth \<mapsto> pe)\<rparr>"
  have "heap ?w2 earth = Some pe" by simp
  from Planet_ctor_child [OF this, of G moonRadius "''textures/2k_moon.jpg''" moonRotationSpeed
      moonOrbitSpeed moonOrbitalInclination moonAxialTilt moonToEarth]
  obtain pm where pm: "Planet_ctor G ?w2 moonRadius ''textures/2k_moon.jpg'' moonRotationSpeed
      moonOrbitSpeed moonOrbitalInclination moonAxialTilt (Some earth) moonToEarth = Some pm"
    "parent pm = Some earth" "axialAngle pm = PI / 2" "orbitalAngle pm = PI / 2"
    "rotationSpeed pm = moonRotationSpeed" "orbitalSpeed pm = moonOrbitSpeed"
    "distanceFromParent pm = moonToEarth * modelScale" "orbitalInclination pm = moonOrbitalInclination"
    by blast
  let ?w3 = "?w2\<lparr>heap := (heap ?w2)(moon \<mapsto> pm)\<rparr>"
  obtain pb where pb: "Planet_ctor G ?w3 backgroundRadius ''textures/2k_stars.jpg'' 0 0 0 (PI / 2)
      None 0 = Some pb"
    using Planet_ctor_root [of G ?w3 backgroundRadius "''textures/2k_stars.jpg''" 0 0 0 "PI / 2" 0]
    by blast
  let ?w = "?w3\<lparr>heap := (heap ?w3)(starBackground \<mapsto> pb)\<rparr>"
  have init: "main_init G t0 = Some ?w"
    unfolding main_init_def Let_def using ps(1) pe(1) pm(1) pb by simp
  have h: "heap ?w sun = Some ps" "heap ?w earth = Some pe" "heap ?w moon = Some pm"
    by (simp_all add: sun_def earth_def moon_def starBackground_def)
  have "scene_ok ?w"
    by (simp add: scene_ok_def parent_ok_def ps pe pm sun_def earth_def moon_def starBackground_def)
  with init h ps pe(1-8) pe_pos pm show ?thesis
    by (intro exI [of _ ?w] exI [of _ ps] exI [of _ pe] exI [of _ pm]) simp
qed

section \<open>The properties\<close>

lemma animateAll_animated_only:
  assumes run: "animateAll G t1 t2 t3 w = Some w'"
  shows "heap w' b = heap w b \<or> (\<exists>p p'. heap w b = Some p \<and> heap w' b = Some p' \<and> animated_only p p')"
proof (cases "isAnimating w")
  case False
  then show ?thesis using run by (simp add: animateAll_def)
next
  case True
  with run obtain w1 w2 where
    a1: "animate G t1 sun w = Some w1" and a2: "animate G t2 earth w1 = Some w2" and
    a3: "animate G t3 moon w2 = Some w'"
    by (auto simp: animateAll_def bind_eq_Some_conv)
  note d = sun_earth_moon_distinct
  consider "b = sun" | "b = earth" | "b = moon" | "b \<noteq> sun" "b \<noteq> earth" "b \<noteq> moon"
    by blast
  then show ?thesis
  proof cases
    case 1
    from a1 obtain p where p: "heap w sun = Some p"
      by (auto simp: animate_Some_iff)
    from animate_animated_only [OF p a1] obtain p' where "heap w1 sun = Some p'" "animated_only p p'"
      by blast
    moreover have "heap w' sun = heap w1 sun"
      using animate_heap_other [OF a2, of sun] animate_heap_other [OF a3, of sun] d by simp
    ultimately show ?thesis using p 1 by auto
  next
    case 2
    from a2 obtain p where p: "heap w1 earth = Some p"
      by (auto simp: animate_Some_iff)
    from animate_animated_only [OF p a2] obtain p' where "heap w2 earth = Some p'" "animated_only p p'"
      by blast
    moreover have "heap w' earth = heap w2 earth" "heap w1 earth = heap w earth"
      using animate_heap_other [OF a1, of earth] animate_heap_other [OF a3, of earth] d by simp_all
    ultimately show ?thesis using p 2 by auto
  next
    case 3
    from a3 obtain p where p: "heap w2 moon = Some p"
      by (auto simp: animate_Some_iff)
    from animate_animated_only [OF p a3] obtain p' where "heap w' moon = Some p'" "animated_only p p'"
      by blast
    moreover have "heap w2 moon = heap w moon"
      using animate_heap_other [OF a1, of moon] animate_heap_other [OF a2, of moon] d by simp
    ultimately show ?thesis using p 3 by auto
  next
    case 4
    then have "heap w' b = heap w b"
      using animate_heap_other [OF a1, of b] animate_heap_other [OF a2, of b]
        animate_heap_other [OF a3, of b] by simp
    then show ?thesis ..
  qed
qed

lemma animated_only_consts:
  "animated_only p p' \<Longrightarrow>
     parent p' = parent p \<and> distanceFromParent p' = distanceFromParent p \<and>
     orbitalInclination p' = orbitalInclination p \<and> axialTilt p' = axialTilt p \<and>
     orbitalSpeed p' = orbitalSpeed p \<and> rotationSpeed p' = rotationSpeed p \<and>
     radius p' = radius p \<and> modelMatrix p' = modelMatrix p \<and> texture p' = texture p"
  unfolding animated_only_def
  by (drule arg_cong [where f = "\<lambda>x. (parent x, distanceFromParent x, orbitalInclination x,
      axialTilt x, orbitalSpeed x, rotationSpeed x, radius x, modelMatrix x, texture x)"]) simp

lemma serviceRestart_idle: "\<not> restartAnimation w \<Longrightarrow> serviceRestart G w = Some w"
  by (simp add: serviceRestart_def)

lemma animated_only_mesh:
  "animated_only p p' \<Longrightarrow>
     verts (cpuGeom p') = verts (cpuGeom p) \<and> texCoords (cpuGeom p') = texCoords (cpuGeom p) \<and>
     rotationAxis p' = rotationAxis p"
  unfolding animated_only_def
  by (intro conjI; drule arg_cong [where f = "\<lambda>x. (verts (cpuGeom x), texCoords (cpuGeom x), rotationAxis x)"]) simp_all

lemma animate_position:
  assumes an: "animate G now a w = Some w'" and p': "heap w' a = Some p'"
  shows "(parent p' = None \<longrightarrow> position p' = Vec3 0 0 0) \<and>
     (\<forall>b q. parent p' = Some b \<and> b \<noteq> a \<and> heap w' b = Some q \<longrightarrow>
        position p' = vec3_add (position q)
          (vec3_scale (distanceFromParent p')
             (Vec3 (sin (orbitalAngle p')) (sin (orbitalAngle p') * sin (orbitalInclination p'))
                (cos (orbitalAngle p')))))"
proof -
  let ?w1 = "w\<lparr>currUpdateTime := now\<rparr>"
  from an obtain p p2 where p: "heap w a = Some p" and
    loc: "updateLocation ?w1
          ((updateAxialRotation G ?w1 p)
             \<lparr>orbitalAngle := orbitalAngle p + orbitalSpeed p * animationSpeed w * (now - lastUpdateTime w)\<rparr>)
          = Some p2" (is "updateLocation _ ?p1 = _") and
    w': "w' = w\<lparr>currUpdateTime := now,
               heap := (heap w)(a \<mapsto> updateTranslationMatrix G (updateNormals G p2)),
               lastUpdateTime := now\<rparr>"
    by (auto simp: animate_Some_iff)
  have p'_eq: "p' = updateTranslationMatrix G (updateNormals G p2)"
    using p' by (simp add: w')
  have p2: "p2 = ?p1\<lparr>position := position p2\<rparr>"
    using loc by (rule updateLocation_frame)
  have same: "parent p' = parent ?p1" "distanceFromParent p' = distanceFromParent ?p1"
    "orbitalAngle p' = orbitalAngle ?p1" "orbitalInclination p' = orbitalInclination ?p1"
    "position p' = position p2"
    unfolding p'_eq by (subst p2, simp add: updateTranslationMatrix_def updateNormals_def updateGPUGeom_def)+
  show ?thesis
  proof (intro conjI allI impI)
    assume "parent p' = None"
    then have "parent ?p1 = None" by (simp add: same)
    from updateLocation_None_parent [OF this, of ?w1] loc show "position p' = Vec3 0 0 0"
      by (auto simp: same)
  next
    fix b q
    assume h: "parent p' = Some b \<and> b \<noteq> a \<and> heap w' b = Some q"
    then have h1: "parent p' = Some b" and h2: "b \<noteq> a" and h3: "heap w' b = Some q"
      by simp_all
    have par: "parent ?p1 = Some b"
      using h1 by (simp add: same)
    have q: "heap ?w1 b = Some q"
      using h2 h3 by (simp add: w')
    from updateLocation_Some_parent [OF par q] loc
    show "position p' = vec3_add (position q)
          (vec3_scale (distanceFromParent p')
             (Vec3 (sin (orbitalAngle p')) (sin (orbitalAngle p') * sin (orbitalInclination p'))
                (cos (orbitalAngle p'))))"
      unfolding same by auto
  qed
qed

subsection \<open>The claims\<close>

text \<open>
  Claim C1, at a concrete iteration. On the scene that \<open>main\<close> builds at clock reading 0,
  an iteration without key events whose three \<open>animate\<close> calls read the clock at 1, 1.25
  and 1.5 advances the sun's angles by rate times \<open>1 - 0\<close>, the earth's by rate times
  \<open>1.25 - 1\<close> and the moon's by rate times \<open>1.5 - 1.25\<close>: each call takes its delta from
  the \<open>lastUpdateTime\<close> the call before it wrote, so the three bodies do not get one
  common delta.
\<close>

theorem frame_deltas_differ:
  "\<exists>w w' ps pe pm. main_init glm_ref 0 = Some w \<and> lastUpdateTime w = 0 \<and>
     renderFrame glm_ref [] 1 1.25 1.5 w = Some w' \<and>
     heap w' sun = Some ps \<and> heap w' earth = Some pe \<and> heap w' moon = Some pm \<and>
     axialAngle ps = PI / 2 + sunRotationSpeed * 1 * (1 - 0) \<and>
     axialAngle pe = PI / 2 + earthRotationSpeed * 1 * (1.25 - 1) \<and>
     orbitalAngle pe = PI / 2 + earthOrbitSpeed * 1 * (1.25 - 1) \<and>
     axialAngle pm = PI / 2 + moonRotationSpeed * 1 * (1.5 - 1.25) \<and>
     orbitalAngle pm = PI / 2 + moonOrbitSpeed * 1 * (1.5 - 1.25) \<and>
     axialAngle pe \<noteq> PI / 2 + earthRotationSpeed * 1 * (1 - 0) \<and>
     orbitalAngle pe \<noteq> PI / 2 + earthOrbitSpeed * 1 * (1 - 0) \<and>
     axialAngle pm \<noteq> PI / 2 + moonRotationSpeed * 1 * (1 - 0) \<and>
     orbitalAngle pm \<noteq> PI / 2 + moonOrbitSpeed * 1 * (1 - 0)"
proof -
  from main_init_scene [of glm_ref 0] obtain w ps pe pm where
    w: "main_init glm_ref 0 = Some w" "scene_ok w" "animationSpeed w = 1" "isAnimating w"
       "\<not> restartAnimation w" "lastUpdateTime w = 0"
       "heap w sun = Some ps" "heap w earth = Some pe" "heap w moon = Some pm" and
    a: "axialAngle ps = PI / 2" "axialAngle pe = PI / 2" "orbitalAngle pe = PI / 2"
       "axialAngle pm = PI / 2" "orbitalAngle pm = PI / 2" and
    r: "rotationSpeed ps = sunRotationSpeed" "rotationSpeed pe = earthRotationSpeed"
       "orbitalSpeed pe = earthOrbitSpeed" "rotationSpeed pm = moonRotationSpeed"
       "orbitalSpeed pm = moonOrbitSpeed"
    by blast
  from renderFrame_total [OF w(2), of glm_ref "[]" 1 "1.25" "1.5"] obtain w' where
    w': "renderFrame glm_ref [] 1 1.25 1.5 w = Some w'"
    by blast
  then have "animateAll glm_ref 1 1.25 1.5 w = Some w'"
    using w(5) by (simp add: renderFrame_def glfwPollEvents_Nil serviceRestart_idle)
  from animateAll_angles [OF this w(4) w(7) w(8) w(9)] obtain ps' pe' pm' where
    h: "heap w' sun = Some ps'" "heap w' earth = Some pe'" "heap w' moon = Some pm'" and
    v: "axialAngle ps' = PI / 2 + sunRotationSpeed * 1 * (1 - 0)"
       "axialAngle pe' = PI / 2 + earthRotationSpeed * 1 * (1.25 - 1)"
       "orbitalAngle pe' = PI / 2 + earthOrbitSpeed * 1 * (1.25 - 1)"
       "axialAngle pm' = PI / 2 + moonRotationSpeed * 1 * (1.5 - 1.25)"
       "orbitalAngle pm' = PI / 2 + moonOrbitSpeed * 1 * (1.5 - 1.25)"
    unfolding w(3) w(6) a r by blast
  have n: "axialAngle pe' \<noteq> PI / 2 + earthRotationSpeed * 1 * (1 - 0)"
    "orbitalAngle pe' \<noteq> PI / 2 + earthOrbitSpeed * 1 * (1 - 0)"
    "axialAngle pm' \<noteq> PI / 2 + moonRotationSpeed * 1 * (1 - 0)"
    "orbitalAngle pm' \<noteq> PI / 2 + moonOrbitSpeed * 1 * (1 - 0)"
    unfolding v
    by (simp_all add: earthRotationSpeed_def earthOrbitSpeed_def moonRotationSpeed_def
        moonOrbitSpeed_def)
  from w(1) w(6) w' h v n show ?thesis
    by blast
qed

text \<open>
  Claim C2. \<open>updateLocation\<close> puts a body with no parent at \<open>(0,0,0)\<close>, whatever its
  angles, and a body whose parent is at \<open>P = (px, py, pz)\<close> at
  \<open>(px + d sin \<theta>, py + d sin \<theta> sin i, pz + d cos \<theta>)\<close>, for its distance \<open>d\<close>,
  inclination \<open>i\<close> and orbital angle \<open>\<theta>\<close>, whatever \<open>\<theta>\<close> is. After a call of
  \<open>animate\<close> the same holds of the body's new position, its new orbital angle and the
  position of its parent.
\<close>

theorem orbit_composition:
  "(parent p = None \<longrightarrow> (\<exists>p'. updateLocation w p = Some p' \<and> position p' = Vec3 0 0 0)) \<and>
   (\<forall>b q px py pz. parent p = Some b \<and> heap w b = Some q \<and> position q = Vec3 px py pz \<longrightarrow>
      (\<exists>p'. updateLocation w p = Some p' \<and>
         position p' =
           Vec3 (px + distanceFromParent p * sin (orbitalAngle p))
             (py + distanceFromParent p * (sin (orbitalAngle p) * sin (orbitalInclination p)))
             (pz + distanceFromParent p * cos (orbitalAngle p)))) \<and>
   (\<forall>w' p'. animate G now a w = Some w' \<and> heap w' a = Some p' \<longrightarrow>
      (parent p' = None \<longrightarrow> position p' = Vec3 0 0 0) \<and>
      (\<forall>b q px py pz. parent p' = Some b \<and> b \<noteq> a \<and> heap w' b = Some q \<and>
           position q = Vec3 px py pz \<longrightarrow>
         position p' =
           Vec3 (px + distanceFromParent p' * sin (orbitalAngle p'))
             (py + distanceFromParent p' * (sin (orbitalAngle p') * sin (orbitalInclination p')))
             (pz + distanceFromParent p' * cos (orbitalAngle p'))))"
proof (intro conjI allI impI)
  assume "parent p = None"
  then show "\<exists>p'. updateLocation w p = Some p' \<and> position p' = Vec3 0 0 0"
    by (simp add: updateLocation_None_parent)
next
  fix b q px py pz
  assume "parent p = Some b \<and> heap w b = Some q \<and> position q = Vec3 px py pz"
  then show "\<exists>p'. updateLocation w p = Some p' \<and>
         position p' =
           Vec3 (px + distanceFromParent p * sin (orbitalAngle p))
             (py + distanceFromParent p * (sin (orbitalAngle p) * sin (orbitalInclination p)))
             (pz + distanceFromParent p * cos (orbitalAngle p))"
    by (simp add: updateLocation_Some_parent)
next
  fix w' p'
  assume h: "animate G now a w = Some w' \<and> heap w' a = Some p'" and "parent p' = None"
  with animate_position [of G now a w w' p'] show "position p' = Vec3 0 0 0"
    by blast
next
  fix w' p' b q px py pz
  assume h: "animate G now a w = Some w' \<and> heap w' a = Some p'"
    and k: "parent p' = Some b \<and> b \<noteq> a \<and> heap w' b = Some q \<and> position q = Vec3 px py pz"
  with animate_position [of G now a w w' p']
  have "position p' = vec3_add (position q)
           (vec3_scale (distanceFromParent p')
              (Vec3 (sin (orbitalAngle p')) (sin (orbitalAngle p') * sin (orbitalInclination p'))
                 (cos (orbitalAngle p'))))"
    by blast
  then show "position p' =
           Vec3 (px + distanceFromParent p' * sin (orbitalAngle p'))
             (py + distanceFromParent p' * (sin (orbitalAngle p') * sin (orbitalInclination p')))
             (pz + distanceFromParent p' * cos (orbitalAngle p'))"
    using k by simp
qed

theorem orbit_composition_witness:
  "(\<exists>p'. updateLocation
       \<lparr>animationSpeed = 1, isAnimating = True, restartAnimation = False,
        lastUpdateTime = 0, currUpdateTime = 0, heap = Map.empty\<rparr>
       (demo_body 1 (Vec3 5 0 0)) = Some p' \<and> position p' = Vec3 0 0 0) \<and>
   (\<exists>p'. updateLocation
       \<lparr>animationSpeed = 1, isAnimating = True, restartAnimation = False,
        lastUpdateTime = 0, currUpdateTime = 0,
        heap = Map.empty(7 \<mapsto> demo_body 1 (Vec3 1 2 3))\<rparr>
       ((demo_body 1 (Vec3 0 0 0))\<lparr>parent := Some 7, distanceFromParent := 10, orbitalAngle := 0\<rparr>)
         = Some p' \<and> position p' = Vec3 1 2 13) \<and>
   (\<exists>w w' pe p' ex ey ez. main_init glm_ref 0 = Some w \<and> animate glm_ref 1 moon w = Some w' \<and>
      heap w' earth = Some pe \<and> position pe = Vec3 ex ey ez \<and> 0 < ex \<and>
      heap w' moon = Some p' \<and>
      position p' =
        Vec3 (ex + moonToEarth * modelScale * sin (PI / 2 + moonOrbitSpeed * 1 * (1 - 0)))
          (ey + moonToEarth * modelScale *
             (sin (PI / 2 + moonOrbitSpeed * 1 * (1 - 0)) * sin moonOrbitalInclination))
          (ez + moonToEarth * modelScale * cos (PI / 2 + moonOrbitSpeed * 1 * (1 - 0))))"
proof (intro conjI)
  let ?W = "\<lparr>animationSpeed = 1, isAnimating = True, restartAnimation = False,
        lastUpdateTime = 0, currUpdateTime = 0, heap = Map.empty\<rparr> :: world"
  have "parent (demo_body 1 (Vec3 5 0 0)) = None"
    by (simp add: demo_body_def)
  with orbit_composition [of "demo_body 1 (Vec3 5 0 0)" ?W glm_ref 0 0]
  show "\<exists>p'. updateLocation ?W (demo_body 1 (Vec3 5 0 0)) = Some p' \<and> position p' = Vec3 0 0 0"
    by blast
next
  let ?W = "\<lparr>animationSpeed = 1, isAnimating = True, restartAnimation = False,
        lastUpdateTime = 0, currUpdateTime = 0,
        heap = Map.empty(7 \<mapsto> demo_body 1 (Vec3 1 2 3))\<rparr> :: world"
  let ?p = "(demo_body 1 (Vec3 0 0 0))\<lparr>parent := Some 7, distanceFromParent := 10, orbitalAngle := 0\<rparr>"
  have h: "parent ?p = Some 7 \<and> heap ?W 7 = Some (demo_body 1 (Vec3 1 2 3)) \<and>
      position (demo_body 1 (Vec3 1 2 3)) = Vec3 1 2 3"
    by (simp add: demo_body_def)
  from orbit_composition [of ?p ?W glm_ref 0 0] h
  obtain p' where "updateLocation ?W ?p = Some p'"
    "position p' =
       Vec3 (1 + distanceFromParent ?p * sin (orbitalAngle ?p))
         (2 + distanceFromParent ?p * (sin (orbitalAngle ?p) * sin (orbitalInclination ?p)))
         (3 + distanceFromParent ?p * cos (orbitalAngle ?p))"
    by blast
  then show "\<exists>p'. updateLocation ?W ?p = Some p' \<and> position p' = Vec3 1 2 13"
    by (simp add: demo_body_def)
next
  from main_init_scene [of glm_ref 0] obtain w pe pm where
    w: "main_init glm_ref 0 = Some w" "animationSpeed w = 1" "lastUpdateTime w = 0"
       "heap w earth = Some pe" "heap w moon = Some pm" "parent pm = Some earth"
       "orbitalAngle pm = PI / 2" "orbitalSpeed pm = moonOrbitSpeed"
       "distanceFromParent pm = moonToEarth * modelScale"
       "orbitalInclination pm = moonOrbitalInclination" and
    pe: "position pe = Vec3 (earthToSun * modelScale * sin (PI / 2))
       (earthToSun * modelScale * (sin (PI / 2) * sin earthOrbitalInclination))
       (earthToSun * modelScale * cos (PI / 2))"
    by blast
  have "0 < PI / 2" "PI / 2 < pi"
    using pi_ge_two by (simp_all add: PI_def)
  then have "0 < sin (PI / 2)"
    by (rule sin_gt_zero)
  then have ex: "0 < earthToSun * modelScale * sin (PI / 2)"
    by (simp add: earthToSun_def modelScale_def sunRadius_def)
  have "parent_ok w pm"
    by (simp add: parent_ok_def w)
  from animate_total [OF w(5) this] obtain w' where w': "animate glm_ref 1 moon w = Some w'"
    by blast
  from animate_angles [OF w(5) w'] obtain p' where p': "heap w' moon = Some p'"
    "orbitalAngle p' = PI / 2 + moonOrbitSpeed * 1 * (1 - 0)"
    by (auto simp: w)
  from animate_animated_only [OF w(5) w'] p'(1) have "animated_only pm p'"
    by simp
  from animated_only_consts [OF this] have c: "parent p' = Some earth"
    "distanceFromParent p' = moonToEarth * modelScale"
    "orbitalInclination p' = moonOrbitalInclination"
    by (simp_all add: w)
  have e: "heap w' earth = Some pe"
    using animate_heap_other [OF w', of earth] w(4) sun_earth_moon_distinct by simp
  from orbit_composition [of pm w glm_ref 1 moon] w' p'(1) c(1) e pe sun_earth_moon_distinct(3)
  have "position p' =
      Vec3 (earthToSun * modelScale * sin (PI / 2) + distanceFromParent p' * sin (orbitalAngle p'))
        (earthToSun * modelScale * (sin (PI / 2) * sin earthOrbitalInclination) +
           distanceFromParent p' * (sin (orbitalAngle p') * sin (orbitalInclination p')))
        (earthToSun * modelScale * cos (PI / 2) + distanceFromParent p' * cos (orbitalAngle p'))"
    by blast
  then have "position p' =
      Vec3 (earthToSun * modelScale * sin (PI / 2) +
            moonToEarth * modelScale * sin (PI / 2 + moonOrbitSpeed * 1 * (1 - 0)))
        (earthToSun * modelScale * (sin (PI / 2) * sin earthOrbitalInclination) +
           moonToEarth * modelScale *
             (sin (PI / 2 + moonOrbitSpeed * 1 * (1 - 0)) * sin moonOrbitalInclination))
        (earthToSun * modelScale * cos (PI / 2) +
           moonToEarth * modelScale * cos (PI / 2 + moonOrbitSpeed * 1 * (1 - 0)))"
    unfolding c p'(2) .
  with w(1) w' e pe ex p'(1)
  show "\<exists>w w' pe p' ex ey ez. main_init glm_ref 0 = Some w \<and> animate glm_ref 1 moon w = Some w' \<and>
      heap w' earth = Some pe \<and> position pe = Vec3 ex ey ez \<and> 0 < ex \<and>
      heap w' moon = Some p' \<and>
      position p' =
        Vec3 (ex + moonToEarth * modelScale * sin (PI / 2 + moonOrbitSpeed * 1 * (1 - 0)))
          (ey + moonToEarth * modelScale *
             (sin (PI / 2 + moonOrbitSpeed * 1 * (1 - 0)) * sin moonOrbitalInclination))
          (ez + moonToEarth * modelScale * cos (PI / 2 + moonOrbitSpeed * 1 * (1 - 0)))"
    by blast
qed

text \<open>
  Claim C3. One call of \<open>animate\<close> on a body whose parent pointer is good returns, and
  leaves \<open>axialAngle\<close> at its value before the call plus
  \<open>rotationSpeed * animationSpeed * \<Delta>t\<close>, where \<open>\<Delta>t\<close> is the clock reading of the call
  minus \<open>lastUpdateTime\<close>; this for every speed and every \<open>\<Delta>t\<close>, so for positive speeds
  and \<open>\<Delta>t \<ge> 0\<close>.
\<close>

theorem animate_axial_accumulation:
  assumes "heap w a = Some p" and "parent_ok w p"
  shows "\<exists>w' p'. animate G now a w = Some w' \<and> heap w' a = Some p' \<and>
     axialAngle p' = axialAngle p + rotationSpeed p * animationSpeed w * (now - lastUpdateTime w)"
proof -
  from animate_total [OF assms] obtain w' where w': "animate G now a w = Some w'"
    by blast
  from animate_angles [OF assms(1) w'] w' show ?thesis
    by blast
qed

theorem animate_axial_accumulation_witness:
  "\<exists>w w' p'. main_init glm_ref 0 = Some w \<and> animate glm_ref 2 sun w = Some w' \<and>
     heap w' sun = Some p' \<and> axialAngle p' = PI / 2 + sunRotationSpeed * 1 * (2 - 0)"
proof -
  from main_init_scene [of glm_ref 0] obtain w ps where
    w: "main_init glm_ref 0 = Some w" "animationSpeed w = 1" "lastUpdateTime w = 0"
       "heap w sun = Some ps" "parent ps = None" "axialAngle ps = PI / 2"
       "rotationSpeed ps = sunRotationSpeed"
    by blast
  have ok: "parent_ok w ps"
    by (simp add: parent_ok_def w(5))
  from animate_axial_accumulation [OF w(4) ok, of glm_ref 2] w show ?thesis
    by auto
qed

text \<open>
  Claim C4, as the code runs. \<open>generateSphere\<close> goes row by row through the grid
  \<open>u = 0, \<Delta>, \<dots>, 31 \<Delta>\<close> and within a row cell by cell through \<open>v = 0, \<Delta>, \<dots>, 62 \<Delta>\<close>
  (the values of the two loops, for \<open>\<Delta> = uvInc\<close>), and each vertex it emits for a corner
  \<open>(u, v)\<close> is \<open>radius (sin u cos v, sin u sin v, cos u)\<close> with texture coordinate
  \<open>(v / (2 PI), u / PI)\<close>. But per cell it emits five corners, not six:
  \<open>{u+\<Delta>,v}, {u,v+\<Delta>}\<close> and \<open>{u+\<Delta>,v}, {u+\<Delta>,v+\<Delta>}, {u,v+\<Delta>}\<close>. The corner \<open>{u,v}\<close> of the
  first triangle is missing, the mesh has \<open>5 * 63 * 32 = 10080\<close> vertices where six per
  cell would give 12096, and its first vertex is the corner \<open>{\<Delta>, 0}\<close> of the first cell,
  not the pole \<open>{0, 0}\<close>.
\<close>

theorem generateSphere_mesh:
  "verts (cpuGeom (generateSphere G p)) =
     concat (map (\<lambda>i. concat (map (\<lambda>j.
        map (\<lambda>(phi, theta). Vec3 (radius p * (sin phi * cos theta)) (radius p * (sin phi * sin theta))
               (radius p * cos phi))
          (cellCorners (real i * uvInc) (real j * uvInc))) [0..<63])) [0..<32]) \<and>
   texCoords (cpuGeom (generateSphere G p)) =
     concat (map (\<lambda>i. concat (map (\<lambda>j.
        map (\<lambda>(phi, theta). Vec2 (theta / (2 * PI)) (phi / PI))
          (cellCorners (real i * uvInc) (real j * uvInc))) [0..<63])) [0..<32]) \<and>
   real 31 * uvInc \<le> PI \<and> PI < real 32 * uvInc \<and> real 62 * uvInc \<le> 2 * PI \<and> 2 * PI < real 63 * uvInc \<and>
   cellCorners u v =
     [(u + uvInc, v), (u, v + uvInc), (u + uvInc, v), (u + uvInc, v + uvInc), (u, v + uvInc)] \<and>
   length (verts (cpuGeom (generateSphere G p))) = 10080 \<and>
   length (texCoords (cpuGeom (generateSphere G p))) = 10080 \<and>
   hd (verts (cpuGeom (generateSphere G p))) =
     Vec3 (radius p * (sin uvInc * cos 0)) (radius p * (sin uvInc * sin 0)) (radius p * cos uvInc)"
proof -
  have v: "verts (cpuGeom (generateSphere G p)) = sphereVerts (radius p) 0"
    by (simp add: generateSphere_eq)
  have t: "texCoords (cpuGeom (generateSphere G p)) = sphereTexCoords 0"
    by (simp add: generateSphere_eq)
  have closed: "sphereVerts (radius p) 0 =
     concat (map (\<lambda>i. concat (map (\<lambda>j.
        map (\<lambda>(phi, theta). Vec3 (radius p * (sin phi * cos theta)) (radius p * (sin phi * sin theta))
               (radius p * cos phi))
          (cellCorners (real i * uvInc) (real j * uvInc))) [0..<63])) [0..<32]) \<and>
   sphereTexCoords 0 =
     concat (map (\<lambda>i. concat (map (\<lambda>j.
        map (\<lambda>(phi, theta). Vec2 (theta / (2 * PI)) (phi / PI))
          (cellCorners (real i * uvInc) (real j * uvInc))) [0..<63])) [0..<32])"
    unfolding sphereVerts_def sphereTexCoords_def rowVerts_def rowTexCoords_def
      loopCount_v0 loopCount_u0 cellVerts_def cellTexCoords_def add_0
    by blast
  have le: "(0::real) \<le> PI" "(0::real) \<le> 2 * PI"
    by (simp_all add: PI_def)
  have "sphereVerts (radius p) 0 =
      (cellVerts (radius p) 0 0 @ rowVerts (radius p) 0 (0 + uvInc)) @ sphereVerts (radius p) (0 + uvInc)"
    unfolding sphereVerts_step [OF le(1), of "radius p"] rowVerts_step [OF le(2), of "radius p" 0] ..
  then have first: "hd (sphereVerts (radius p) 0) =
     Vec3 (radius p * (sin uvInc * cos 0)) (radius p * (sin uvInc * sin 0)) (radius p * cos uvInc)"
    by (simp add: cellVerts_def cellCorners_def)
  have corners: "cellCorners u v =
     [(u + uvInc, v), (u, v + uvInc), (u + uvInc, v), (u + uvInc, v + uvInc), (u, v + uvInc)]"
    by (simp add: cellCorners_def)
  show ?thesis
    unfolding v t
    using closed grid_bounds corners length_sphereVerts [of "radius p"] length_sphereTexCoords first
    by blast
qed

text \<open>
  Claim C5. The generated vertices and texture coordinates depend on nothing but the
  radius (the step is the constant \<open>uvInc\<close>): two runs on bodies of the same radius, in
  whatever state otherwise, give the same two sequences, of the same length; and for
  any two bodies, of whatever radii, the sequences have the same length.
\<close>

theorem generateSphere_deterministic:
  "(radius p = radius q \<longrightarrow>
      verts (cpuGeom (generateSphere G p)) = verts (cpuGeom (generateSphere G' q)) \<and>
      texCoords (cpuGeom (generateSphere G p)) = texCoords (cpuGeom (generateSphere G' q))) \<and>
   length (verts (cpuGeom (generateSphere G p))) = length (verts (cpuGeom (generateSphere G' q))) \<and>
   length (texCoords (cpuGeom (generateSphere G p))) =
     length (texCoords (cpuGeom (generateSphere G' q)))"
  by (simp add: generateSphere_eq length_sphereVerts length_sphereTexCoords)

theorem generateSphere_deterministic_witness:
  "verts (cpuGeom (generateSphere glm_ref (demo_body 1 (Vec3 0 0 0)))) =
     verts (cpuGeom (generateSphere glm_ref (demo_body 1 (Vec3 5 0 0)))) \<and>
   texCoords (cpuGeom (generateSphere glm_ref (demo_body 1 (Vec3 0 0 0)))) =
     texCoords (cpuGeom (generateSphere glm_ref (demo_body 1 (Vec3 5 0 0)))) \<and>
   length (verts (cpuGeom (generateSphere glm_ref (demo_body 1 (Vec3 0 0 0))))) =
     length (verts (cpuGeom (generateSphere glm_ref (demo_body 2 (Vec3 5 0 0)))))"
proof -
  have "radius (demo_body 1 (Vec3 0 0 0)) = radius (demo_body 1 (Vec3 5 0 0))"
    by (simp add: demo_body_def)
  then show ?thesis
    using generateSphere_deterministic [of "demo_body 1 (Vec3 0 0 0)" "demo_body 1 (Vec3 5 0 0)"
        glm_ref glm_ref]
      generateSphere_deterministic [of "demo_body 1 (Vec3 0 0 0)" "demo_body 2 (Vec3 5 0 0)"
        glm_ref glm_ref]
    by simp
qed

text \<open>
  Claim C6. \<open>resetOrientation\<close> is idempotent: a second call in succession leaves the
  planet, and so its \<open>axialAngle\<close>, \<open>orbitalAngle\<close> and \<open>rotationAxis\<close>, as the first
  call left them.
\<close>

theorem reset_idempotent:
  "resetOrientation G (resetOrientation G p) = resetOrientation G p \<and>
   axialAngle (resetOrientation G (resetOrientation G p)) = axialAngle (resetOrientation G p) \<and>
   orbitalAngle (resetOrientation G (resetOrientation G p)) = orbitalAngle (resetOrientation G p) \<and>
   rotationAxis (resetOrientation G (resetOrientation G p)) = rotationAxis (resetOrientation G p)"
  by (simp add: resetOrientation_eq)

text \<open>
  Claim C7. A call of \<open>animate\<close> leaves the body's vertex positions, texture coordinates
  and \<open>rotationAxis\<close> as they were, and every other planet of the store untouched: of
  the body's members it writes only the two angles, \<open>position\<close>, the three transforms
  and the normals, and it uploads the unchanged vertices and texture coordinates, with
  the new normals, to the GPU buffers. In an iteration of the loop that services no
  reset, every planet is either untouched or changed in those members only.
\<close>

theorem animate_frame_condition:
  "(\<forall>p. heap w a = Some p \<and> animate G now a w = Some w' \<longrightarrow>
      (\<exists>p'. heap w' a = Some p' \<and>
         verts (cpuGeom p') = verts (cpuGeom p) \<and> texCoords (cpuGeom p') = texCoords (cpuGeom p) \<and>
         rotationAxis p' = rotationAxis p \<and> animated_only p p') \<and>
      (\<forall>b. b \<noteq> a \<longrightarrow> heap w' b = heap w b)) \<and>
   (\<not> restartAnimation (glfwPollEvents evs v) \<and> renderFrame G evs t1 t2 t3 v = Some v' \<longrightarrow>
      (\<forall>b. heap v' b = heap v b \<or>
         (\<exists>p p'. heap v b = Some p \<and> heap v' b = Some p' \<and> animated_only p p')))"
proof (intro conjI allI impI)
  fix p
  assume h: "heap w a = Some p \<and> animate G now a w = Some w'"
  then obtain p' where "heap w' a = Some p'" "animated_only p p'"
    using animate_animated_only by blast
  then show "\<exists>p'. heap w' a = Some p' \<and>
         verts (cpuGeom p') = verts (cpuGeom p) \<and> texCoords (cpuGeom p') = texCoords (cpuGeom p) \<and>
         rotationAxis p' = rotationAxis p \<and> animated_only p p'"
    using animated_only_mesh by blast
next
  fix p b
  assume "heap w a = Some p \<and> animate G now a w = Some w'" and "b \<noteq> a"
  then show "heap w' b = heap w b"
    using animate_heap_other by blast
next
  fix b
  assume h: "\<not> restartAnimation (glfwPollEvents evs v) \<and> renderFrame G evs t1 t2 t3 v = Some v'"
  then have "serviceRestart G (glfwPollEvents evs v) = Some (glfwPollEvents evs v)"
    by (simp add: serviceRestart_idle)
  with h have "animateAll G t1 t2 t3 (glfwPollEvents evs v) = Some v'"
    by (simp add: renderFrame_def)
  from animateAll_animated_only [OF this, of b]
  show "heap v' b = heap v b \<or>
         (\<exists>p p'. heap v b = Some p \<and> heap v' b = Some p' \<and> animated_only p p')"
    by (simp add: glfwPollEvents_frame)
qed

theorem animate_frame_condition_witness:
  "\<exists>w w' p p'. main_init glm_ref 0 = Some w \<and> renderFrame glm_ref [] 1 1.25 1.5 w = Some w' \<and>
     heap w earth = Some p \<and> heap w' earth = Some p' \<and>
     verts (cpuGeom p') = verts (cpuGeom p) \<and> texCoords (cpuGeom p') = texCoords (cpuGeom p) \<and>
     rotationAxis p' = rotationAxis p \<and>
     heap w' starBackground = heap w starBackground"
proof -
  from main_init_scene [of glm_ref 0] obtain w pe where
    w: "main_init glm_ref 0 = Some w" "scene_ok w" "isAnimating w" "\<not> restartAnimation w"
       "heap w earth = Some pe"
    by blast
  from renderFrame_total [OF w(2), of glm_ref "[]" 1 "1.25" "1.5"] obtain w' where
    w': "renderFrame glm_ref [] 1 1.25 1.5 w = Some w'"
    by blast
  have nr: "\<not> restartAnimation (glfwPollEvents [] w)"
    using w(4) by (simp add: glfwPollEvents_Nil)
  have all: "animateAll glm_ref 1 1.25 1.5 w = Some w'"
    using w' w(4) by (simp add: renderFrame_def glfwPollEvents_Nil serviceRestart_idle)
  then obtain w1 w2 where
    a1: "animate glm_ref 1 sun w = Some w1" and a2: "animate glm_ref 1.25 earth w1 = Some w2" and
    a3: "animate glm_ref 1.5 moon w2 = Some w'"
    using w(3) by (auto simp: animateAll_def bind_eq_Some_conv)
  have e1: "heap w1 earth = Some pe"
    using animate_heap_other [OF a1, of earth] w(5) sun_earth_moon_distinct by simp
  from animate_frame_condition [of w1 earth glm_ref "1.25" w2 "[]" w 1 "1.25" "1.5" w'] e1 a2
  obtain p' where p': "heap w2 earth = Some p'" "verts (cpuGeom p') = verts (cpuGeom pe)"
    "texCoords (cpuGeom p') = texCoords (cpuGeom pe)" "rotationAxis p' = rotationAxis pe"
    by blast
  have e3: "heap w' earth = Some p'"
    using animate_heap_other [OF a3, of earth] p'(1) sun_earth_moon_distinct by simp
  have "heap w' starBackground = heap w starBackground"
    using animate_heap_other [OF a1, of starBackground] animate_heap_other [OF a2, of starBackground]
      animate_heap_other [OF a3, of starBackground]
    by (simp add: sun_def earth_def moon_def starBackground_def)
  with w(1) w' w(5) e3 p' show ?thesis
    by blast
qed

text \<open>
  Claim C8. Starting from a non-negative \<open>animationSpeed\<close>, no sequence of key events
  (speed up, speed down, or any other key) and no run of the render loop takes it below
  zero: the decrease is \<open>max 0 (animationSpeed - 0.1)\<close>.
\<close>

theorem speed_never_negative:
  "0 \<le> animationSpeed w \<Longrightarrow>
     0 \<le> animationSpeed (glfwPollEvents evs w) \<and>
     (\<forall>w'. renderLoop G fs w = Some w' \<longrightarrow> 0 \<le> animationSpeed w')"
  using glfwPollEvents_speed_nonneg renderLoop_speed_nonneg by blast

theorem speed_never_negative_witness:
  "animationSpeed (glfwPollEvents
      [(GLFW_KEY_DOWN, 0, GLFW_PRESS, 0), (GLFW_KEY_DOWN, 0, GLFW_PRESS, 0),
       (GLFW_KEY_UP, 0, GLFW_PRESS, 0)]
      \<lparr>animationSpeed = 0.15, isAnimating = True, restartAnimation = False,
       lastUpdateTime = 0, currUpdateTime = 0, heap = Map.empty\<rparr>) = 0.1 \<and>
   0 \<le> animationSpeed (glfwPollEvents
      [(GLFW_KEY_DOWN, 0, GLFW_PRESS, 0), (GLFW_KEY_DOWN, 0, GLFW_PRESS, 0),
       (GLFW_KEY_UP, 0, GLFW_PRESS, 0)]
      \<lparr>animationSpeed = 0.15, isAnimating = True, restartAnimation = False,
       lastUpdateTime = 0, currUpdateTime = 0, heap = Map.empty\<rparr>)"
proof -
  let ?w = "\<lparr>animationSpeed = 0.15, isAnimating = True, restartAnimation = False,
       lastUpdateTime = 0, currUpdateTime = 0, heap = Map.empty\<rparr> :: world"
  have h: "0 \<le> animationSpeed ?w" by simp
  have "animationSpeed (glfwPollEvents
      [(GLFW_KEY_DOWN, 0, GLFW_PRESS, 0), (GLFW_KEY_DOWN, 0, GLFW_PRESS, 0),
       (GLFW_KEY_UP, 0, GLFW_PRESS, 0)] ?w) = 0.1"
    by (simp add: glfwPollEvents_def keyCallback_def GLFW_KEY_DOWN_def GLFW_KEY_UP_def
        GLFW_KEY_SPACE_def GLFW_PRESS_def)
  then show ?thesis
    using speed_never_negative [OF h, of _ glm_ref "[]"] by blast
qed

text \<open>
  Claim C9. \<open>resetOrientation\<close> leaves \<open>position\<close> and \<open>translationMatrix\<close> as they
  were: it sets the two angles to \<open>PI / 2\<close> and recomputes the two rotation matrices and
  \<open>rotationAxis\<close>. So an iteration of the loop that finds the animation paused, reset
  requested or not, moves no body: every planet keeps its position and its translation
  matrix.
\<close>

theorem reset_keeps_position:
  "position (resetOrientation G p) = position p \<and>
   translationMatrix (resetOrientation G p) = translationMatrix p \<and>
   orbitalAngle (resetOrientation G p) = PI / 2 \<and>
   axialAngle (resetOrientation G p) = PI / 2 \<and>
   axialRotationMatrix (resetOrientation G p) =
     glm_rotate G (modelMatrix p) (orbitalInclination p + PI / 2 + axialTilt p) xAxisOfRotation \<and>
   negAxialRotationMatrix (resetOrientation G p) = modelMatrix p \<and>
   rotationAxis (resetOrientation G p) =
     vec3_of_vec4 (mat4_mul_vec4 (axialRotationMatrix (resetOrientation G p)) yAxisMatrix) \<and>
   (\<not> isAnimating (glfwPollEvents evs w) \<and> renderFrame G evs t1 t2 t3 w = Some w' \<longrightarrow>
      (\<forall>a. map_option position (heap w' a) = map_option position (heap w a) \<and>
           map_option translationMatrix (heap w' a) = map_option translationMatrix (heap w a)))"
proof -
  have "\<forall>a. map_option position (heap w' a) = map_option position (heap w a) \<and>
      map_option translationMatrix (heap w' a) = map_option translationMatrix (heap w a)"
    if h: "\<not> isAnimating (glfwPollEvents evs w) \<and> renderFrame G evs t1 t2 t3 w = Some w'"
  proof -
    from h have a: "\<not> isAnimating (glfwPollEvents evs w)"
      and b: "renderFrame G evs t1 t2 t3 w = Some w'"
      by simp_all
    have "serviceRestart G (glfwPollEvents evs w) = Some w'"
      using b by (simp add: renderFrame_paused [OF a])
    from serviceRestart_place [OF this] show ?thesis
      by (simp add: glfwPollEvents_frame)
  qed
  then show ?thesis
    by (simp add: resetOrientation_eq)
qed

theorem reset_keeps_position_witness:
  "\<exists>w w'. main_init glm_ref 0 = Some w \<and>
     restartAnimation (glfwPollEvents
        [(GLFW_KEY_SPACE, 0, GLFW_PRESS, 0), (GLFW_KEY_R, 0, GLFW_PRESS, 0)] w) \<and>
     renderFrame glm_ref [(GLFW_KEY_SPACE, 0, GLFW_PRESS, 0), (GLFW_KEY_R, 0, GLFW_PRESS, 0)]
        1 1.25 1.5 w = Some w' \<and>
     \<not> restartAnimation w' \<and>
     (\<forall>a. map_option position (heap w' a) = map_option position (heap w a) \<and>
          map_option translationMatrix (heap w' a) = map_option translationMatrix (heap w a))"
proof -
  let ?evs = "[(GLFW_KEY_SPACE, 0, GLFW_PRESS, 0), (GLFW_KEY_R, 0, GLFW_PRESS, 0)]"
  from main_init_scene [of glm_ref 0] obtain w where
    w: "main_init glm_ref 0 = Some w" "scene_ok w" "isAnimating w"
    by blast
  have ev: "\<not> isAnimating (glfwPollEvents ?evs w)" "restartAnimation (glfwPollEvents ?evs w)"
    using w(3) by (simp_all add: glfwPollEvents_def keyCallback_def GLFW_KEY_SPACE_def GLFW_KEY_R_def
        GLFW_KEY_UP_def GLFW_KEY_DOWN_def GLFW_PRESS_def)
  from renderFrame_total [OF w(2), of glm_ref ?evs 1 "1.25" "1.5"] obtain w' where
    w': "renderFrame glm_ref ?evs 1 1.25 1.5 w = Some w'"
    by blast
  have "serviceRestart glm_ref (glfwPollEvents ?evs w) = Some w'"
    using w' by (simp add: renderFrame_paused [OF ev(1)])
  then have nr: "\<not> restartAnimation w'"
    using serviceRestart_globals by blast
  from reset_keeps_position [of glm_ref _ ?evs w 1 "1.25" "1.5" w'] ev(1) w'
  have "\<forall>a. map_option position (heap w' a) = map_option position (heap w a) \<and>
          map_option translationMatrix (heap w' a) = map_option translationMatrix (heap w a)"
    by blast
  with w(1) ev(2) w' nr show ?thesis
    by blast
qed

text \<open>
  Claim C10. A pause does not stop the clock the deltas are taken from. From a paused
  state, iterations whose key events do not toggle the pause leave the loop paused and
  \<open>lastUpdateTime\<close>, \<open>currUpdateTime\<close> and \<open>animationSpeed\<close> as they were (no
  \<open>animate\<close> runs). In the iteration that unpauses, the first \<open>animate\<close> call (the
  sun's) advances both angles of its body by rate times \<open>animationSpeed\<close> times
  \<open>t1 - lastUpdateTime\<close>, with \<open>lastUpdateTime\<close> still from before the pause: the
  whole pause is in the delta.
\<close>

theorem pause_then_jump:
  assumes paused: "\<not> isAnimating w"
    and quiet: "\<forall>f\<in>set fs. \<forall>e\<in>set (fst f). \<not> spacePressed e"
    and run: "renderLoop G fs w = Some w1"
    and unpause: "isAnimating (glfwPollEvents evs w1)"
    and srv: "serviceRestart G (glfwPollEvents evs w1) = Some w2"
    and body: "heap w2 sun = Some p"
    and anim: "animateAll G t1 t2 t3 w2 = Some w3"
  shows "\<not> isAnimating w1 \<and> lastUpdateTime w1 = lastUpdateTime w \<and>
     currUpdateTime w1 = currUpdateTime w \<and> animationSpeed w1 = animationSpeed w \<and>
     renderFrame G evs t1 t2 t3 w1 = Some w3 \<and>
     (\<exists>p'. heap w3 sun = Some p' \<and>
        axialAngle p' = axialAngle p + rotationSpeed p * animationSpeed w2 * (t1 - lastUpdateTime w) \<and>
        orbitalAngle p' = orbitalAngle p + orbitalSpeed p * animationSpeed w2 * (t1 - lastUpdateTime w))"
proof -
  have still: "\<not> isAnimating w1 \<and> animationSpeed w1 = animationSpeed w \<and>
     lastUpdateTime w1 = lastUpdateTime w \<and> currUpdateTime w1 = currUpdateTime w"
    using paused quiet run by (rule renderLoop_stays_paused)
  have g2: "isAnimating w2" "lastUpdateTime w2 = lastUpdateTime w"
    using serviceRestart_globals [OF srv] unpause still by (simp_all add: glfwPollEvents_frame)
  from anim g2(1) obtain wa wb where
    a1: "animate G t1 sun w2 = Some wa" and a2: "animate G t2 earth wa = Some wb" and
    a3: "animate G t3 moon wb = Some w3"
    by (auto simp: animateAll_def bind_eq_Some_conv)
  from animate_angles [OF body a1] obtain p' where p': "heap wa sun = Some p'"
    "axialAngle p' = axialAngle p + rotationSpeed p * animationSpeed w2 * (t1 - lastUpdateTime w)"
    "orbitalAngle p' = orbitalAngle p + orbitalSpeed p * animationSpeed w2 * (t1 - lastUpdateTime w)"
    unfolding g2 by blast
  have "heap w3 sun = Some p'"
    using animate_heap_other [OF a2, of sun] animate_heap_other [OF a3, of sun] p'(1)
      sun_earth_moon_distinct by simp
  moreover have "renderFrame G evs t1 t2 t3 w1 = Some w3"
    using srv anim by (simp add: renderFrame_def)
  ultimately show ?thesis
    using still p' by blast
qed

theorem pause_then_jump_witness:
  "\<exists>w0 w1 w2 w3 p p'. main_init glm_ref 0 = Some w0 \<and>
     renderLoop glm_ref [([], 5, 5.25, 5.5), ([(GLFW_KEY_UP, 0, GLFW_PRESS, 0)], 6, 6.25, 6.5)]
       (glfwPollEvents [(GLFW_KEY_SPACE, 0, GLFW_PRESS, 0)] w0) = Some w1 \<and>
     serviceRestart glm_ref (glfwPollEvents [(GLFW_KEY_SPACE, 0, GLFW_PRESS, 0)] w1) = Some w2 \<and>
     animateAll glm_ref 10 10.25 10.5 w2 = Some w3 \<and>
     heap w2 sun = Some p \<and> heap w3 sun = Some p' \<and>
     lastUpdateTime w1 = 0 \<and>
     axialAngle p' = axialAngle p + rotationSpeed p * animationSpeed w2 * (10 - 0)"
proof -
  let ?sp = "[(GLFW_KEY_SPACE, 0, GLFW_PRESS, 0)] :: key_event list"
  let ?fs = "[([], 5, 5.25, 5.5), ([(GLFW_KEY_UP, 0, GLFW_PRESS, 0)], 6, 6.25, 6.5)] :: frame_input list"
  from main_init_scene [of glm_ref 0] obtain w0 where
    w0: "main_init glm_ref 0 = Some w0" "scene_ok w0" "isAnimating w0" "lastUpdateTime w0 = 0"
    by blast
  let ?w = "glfwPollEvents ?sp w0"
  have paused: "\<not> isAnimating ?w"
    using w0(3) by (simp add: glfwPollEvents_def keyCallback_def)
  have last: "lastUpdateTime ?w = 0"
    using w0(4) by (simp add: glfwPollEvents_frame)
  have quiet: "\<forall>f\<in>set ?fs. \<forall>e\<in>set (fst f). \<not> spacePressed e"
    by (simp add: spacePressed_def GLFW_KEY_UP_def GLFW_KEY_SPACE_def)
  have "scene_ok ?w"
    using w0(2) by (rule glfwPollEvents_scene_ok)
  from renderLoop_total [OF this, of glm_ref ?fs] obtain w1 where
    w1: "renderLoop glm_ref ?fs ?w = Some w1" "scene_ok w1"
    by blast
  have "\<not> isAnimating w1"
    using renderLoop_stays_paused [OF paused quiet w1(1)] by simp
  then have unpause: "isAnimating (glfwPollEvents ?sp w1)"
    by (simp add: glfwPollEvents_def keyCallback_def)
  have "scene_ok (glfwPollEvents ?sp w1)"
    using w1(2) by (rule glfwPollEvents_scene_ok)
  from serviceRestart_total [OF this, of glm_ref] obtain w2 where
    w2: "serviceRestart glm_ref (glfwPollEvents ?sp w1) = Some w2" "scene_ok w2"
    by blast
  from w2(2) obtain p where p: "heap w2 sun = Some p"
    by (auto simp: scene_ok_def split: option.splits)
  from animateAll_total [OF w2(2), of glm_ref 10 "10.25" "10.5"] obtain w3 where
    w3: "animateAll glm_ref 10 10.25 10.5 w2 = Some w3"
    by blast
  from pause_then_jump [OF paused quiet w1(1) unpause w2(1) p w3] last
  obtain p' where "lastUpdateTime w1 = 0" "heap w3 sun = Some p'"
    "axialAngle p' = axialAngle p + rotationSpeed p * animationSpeed w2 * (10 - 0)"
    by auto
  with w0(1) w1(1) w2(1) w3 p show ?thesis
    by blast
qed

end
